theory Spec2Isabelle
  imports Complex_Main "HOL-Library.Sublist"
begin

section \<open>JavaScript values used by the dialogue manager\<close>

text \<open>
  The source is \<^verbatim>\<open>src/wit_test/witTest.js\<close>. Strings are byte lists holding the UTF-8
  encoding of the JavaScript text; every keyword the code searches for is ASCII, so
  \<^verbatim>\<open>String.prototype.includes\<close> is the contiguous-sublist test on these bytes.
  A number is modelled by the rational it denotes. The literal \<^verbatim>\<open>0.7\<close> denotes the
  double nearest to 7/10, which lies below 7/10 while the next double lies above it, so
  for every double \<open>d\<close> the test \<^verbatim>\<open>d > 0.7\<close> of the code and the test \<open>d > 7 / 10\<close> of
  the model agree; 0.5 is a double.
  A slot of the session and the \<^verbatim>\<open>value\<close> field of an entity hold \<^verbatim>\<open>undefined\<close>,
  \<^verbatim>\<open>null\<close> or a string.
\<close>

datatype js_error = TypeError | Error

datatype jsval = Undefined | Null | Str string

text \<open>JavaScript truthiness: \<^verbatim>\<open>undefined\<close>, \<^verbatim>\<open>null\<close> and the empty string are falsy.\<close>

fun truthy :: "jsval \<Rightarrow> bool" where
  "truthy Undefined = False"
| "truthy Null = False"
| "truthy (Str s) = (s \<noteq> [])"

text \<open>The conversion a template literal applies to an interpolated value.\<close>

fun toString :: "jsval \<Rightarrow> string" where
  "toString Undefined = ''undefined''"
| "toString Null = ''null''"
| "toString (Str s) = s"

text \<open>\<^verbatim>\<open>haystack.includes(needle)\<close>.\<close>

fun js_includes :: "string \<Rightarrow> string \<Rightarrow> bool" where
  "js_includes [] needle = (needle = [])"
| "js_includes (c # cs) needle = (prefix needle (c # cs) \<or> js_includes cs needle)"

text \<open>\<^verbatim>\<open>xs?.[0]\<close> on an optional array: \<^verbatim>\<open>undefined\<close> when the array is absent or empty.\<close>

fun first_opt :: "'a list option \<Rightarrow> 'a option" where
  "first_opt None = None"
| "first_opt (Some []) = None"
| "first_opt (Some (x # xs)) = Some x"

text \<open>
  An operand of a \<^verbatim>\<open>||\<close> chain either throws or yields a value. The chain
  \<^verbatim>\<open>v || x1 || ... || xn\<close> returns the first truthy operand, evaluates no operand after
  it, and returns the last operand when none is truthy.
\<close>

fun or_chain :: "jsval \<Rightarrow> (js_error + jsval) list \<Rightarrow> js_error + jsval" where
  "or_chain v [] = Inr v"
| "or_chain v (x # xs) =
     (if truthy v then Inr v
      else case x of Inl e \<Rightarrow> Inl e | Inr w \<Rightarrow> or_chain w xs)"

text \<open>
  \<^verbatim>\<open>toLowerCase\<close> is the host's Unicode case mapping; the dialogue manager is modelled
  for an arbitrary such function, passed as \<open>lc\<close>. On ASCII text it is the following.
\<close>

definition ascii_lower :: "string \<Rightarrow> string" where
  "ascii_lower s =
     map (\<lambda>c. if 65 \<le> (of_char c :: nat) \<and> (of_char c :: nat) \<le> 90
              then char_of ((of_char c :: nat) + 32) else c) s"

section \<open>The session and the classifier result\<close>

record session =
  hastane :: jsval
  bolum :: jsval
  datetime :: jsval

text \<open>The module-level \<^verbatim>\<open>session\<close> object as created at start-up.\<close>

definition initial_session :: session where
  "initial_session = \<lparr>hastane = Null, bolum = Null, datetime = Null\<rparr>"

text \<open>\<^verbatim>\<open>Object.keys(session).forEach(key => session[key] = null)\<close>.\<close>

definition reset_session :: "session \<Rightarrow> session" where
  "reset_session s = s\<lparr>hastane := Null, bolum := Null, datetime := Null\<rparr>"

text \<open>
  The JSON the classifier returns. \<open>cand_value\<close> is the \<^verbatim>\<open>value\<close> of an element of
  \<^verbatim>\<open>values\<close>; \<open>ent_value\<close> and \<open>ent_values\<close> are the \<^verbatim>\<open>value\<close> and \<^verbatim>\<open>values\<close> of an
  entity; \<open>intent_name\<close> and \<open>intent_confidence\<close> the \<^verbatim>\<open>name\<close> and \<^verbatim>\<open>confidence\<close> of an
  intent; \<open>wit_intents\<close> and \<open>wit_entities\<close> the two top-level keys. \<open>None\<close> is a key
  that is missing (\<^verbatim>\<open>undefined\<close>).
\<close>

record wit_candidate =
  cand_value :: jsval

record wit_entity =
  ent_value :: jsval
  ent_values :: "wit_candidate list option"

record wit_intent =
  intent_name :: "string option"
  intent_confidence :: "rat option"

type_synonym wit_entities_map = "string \<Rightarrow> wit_entity list option"

record wit_data =
  wit_intents :: "wit_intent list option"
  wit_entities :: "wit_entities_map option"

text \<open>\<^verbatim>\<open>witData.intents?.[0]?.name\<close>.\<close>

definition top_intent :: "wit_data \<Rightarrow> string option" where
  "top_intent witData =
     (case first_opt (wit_intents witData) of None \<Rightarrow> None | Some i \<Rightarrow> intent_name i)"

text \<open>\<^verbatim>\<open>witData.intents?.[0]?.confidence || 0\<close>.\<close>

definition top_confidence :: "wit_data \<Rightarrow> rat" where
  "top_confidence witData =
     (case first_opt (wit_intents witData) of
        None \<Rightarrow> 0
      | Some i \<Rightarrow> (case intent_confidence i of
                     None \<Rightarrow> 0
                   | Some c \<Rightarrow> if c \<noteq> 0 then c else 0))"

text \<open>
  \<^verbatim>\<open>entities[key]?.[0]?.value\<close>: indexing \<^verbatim>\<open>entities\<close> throws a TypeError when it is
  \<^verbatim>\<open>undefined\<close>; the rest of the path is optional chaining.
\<close>

definition entity_value :: "wit_entities_map option \<Rightarrow> string \<Rightarrow> js_error + jsval" where
  "entity_value ents k =
     (case ents of
        None \<Rightarrow> Inl TypeError
      | Some m \<Rightarrow> Inr (case first_opt (m k) of None \<Rightarrow> Undefined | Some e \<Rightarrow> ent_value e))"

text \<open>\<^verbatim>\<open>entities[key]?.[0]?.values?.[0]?.value\<close>.\<close>

definition entity_values_value :: "wit_entities_map option \<Rightarrow> string \<Rightarrow> js_error + jsval" where
  "entity_values_value ents k =
     (case ents of
        None \<Rightarrow> Inl TypeError
      | Some m \<Rightarrow> Inr (case first_opt (m k) of
                        None \<Rightarrow> Undefined
                      | Some e \<Rightarrow> (case first_opt (ent_values e) of
                                     None \<Rightarrow> Undefined
                                   | Some c \<Rightarrow> cand_value c)))"

text \<open>The operands that follow the slot itself in each of the three \<^verbatim>\<open>||\<close> chains.\<close>

definition hastane_aliases :: "wit_entities_map option \<Rightarrow> (js_error + jsval) list" where
  "hastane_aliases ents =
     [entity_value ents ''hastane:hastane'',
      entity_value ents ''hastane'']"

definition bolum_aliases :: "wit_entities_map option \<Rightarrow> (js_error + jsval) list" where
  "bolum_aliases ents =
     [entity_value ents ''bolum:bolum'',
      entity_value ents ''bolum'']"

definition datetime_aliases :: "wit_entities_map option \<Rightarrow> (js_error + jsval) list" where
  "datetime_aliases ents =
     [entity_value ents (''wit'' @ [CHR 0x24] @ ''datetime:datetime''),
      entity_value ents (''wit'' @ [CHR 0x24] @ ''datetime''),
      entity_value ents ''wit/datetime:datetime'',
      entity_values_value ents ''wit/datetime:datetime'',
      entity_value ents ''wit/datetime'',
      entity_values_value ents ''wit/datetime'']"

text \<open>
  The three assignments at the top of \<^verbatim>\<open>generateResponse\<close>, in order. An assignment whose
  right-hand side throws leaves the session as the earlier assignments made it.
\<close>

definition entity_merge :: "session \<Rightarrow> wit_entities_map option \<Rightarrow> session \<times> js_error option" where
  "entity_merge s ents =
     (case or_chain (hastane s) (hastane_aliases ents) of
        Inl e \<Rightarrow> (s, Some e)
      | Inr h \<Rightarrow>
          let s1 = s\<lparr>hastane := h\<rparr> in
          (case or_chain (bolum s1) (bolum_aliases ents) of
             Inl e \<Rightarrow> (s1, Some e)
           | Inr b \<Rightarrow>
               let s2 = s1\<lparr>bolum := b\<rparr> in
               (case or_chain (datetime s2) (datetime_aliases ents) of
                  Inl e \<Rightarrow> (s2, Some e)
                | Inr d \<Rightarrow> (s2\<lparr>datetime := d\<rparr>, None))))"

section \<open>The generative fallback client\<close>

text \<open>
  The JSON the generative service returns: an optional \<^verbatim>\<open>error\<close> object with \<^verbatim>\<open>code\<close>
  and \<^verbatim>\<open>message\<close>, and optional \<^verbatim>\<open>candidates\<close>, each nesting through \<^verbatim>\<open>content\<close> and
  \<^verbatim>\<open>parts\<close> down to \<^verbatim>\<open>text\<close>.
\<close>

record gemini_error =
  err_code :: int
  err_message :: "string option"

record gemini_part =
  part_text :: "string option"

record gemini_content =
  content_parts :: "gemini_part list option"

record gemini_candidate =
  cand_content :: "gemini_content option"

record gemini_data =
  gem_error :: "gemini_error option"
  gem_candidates :: "gemini_candidate list option"

text \<open>
  What \<^verbatim>\<open>await fetch(...)\<close> followed by \<^verbatim>\<open>await res.json()\<close> does for a request body:
  one of the two throws, or the parsed body is returned.
\<close>

datatype gemini_fetch = FetchThrows | FetchJson gemini_data

definition quota_message :: string where
  "quota_message =
     [CHR 0xF0, CHR 0x9F, CHR 0xA4, CHR 0x96] @ '' '' @ [CHR 0xC3, CHR 0x9C] @ ''zg'' @
     [CHR 0xC3, CHR 0xBC] @ ''n'' @ [CHR 0xC3, CHR 0xBC] @ ''m, '' @ [CHR 0xC5, CHR 0x9F] @
     ''u an '' @ [CHR 0xC3, CHR 0xA7] @ ''ok fazla talep al'' @ [CHR 0xC4, CHR 0xB1] @
     ''yorum. L'' @ [CHR 0xC3, CHR 0xBC] @ ''tfen biraz sonra tekrar deneyin (Kota A'' @
     [CHR 0xC5, CHR 0x9F, CHR 0xC4, CHR 0xB1] @ ''ld'' @ [CHR 0xC4, CHR 0xB1] @ '').''"

definition api_key_message :: string where
  "api_key_message =
     [CHR 0xF0, CHR 0x9F, CHR 0xA4, CHR 0x96] @ '' API anahtar'' @ [CHR 0xC4, CHR 0xB1] @
     ''mda bir sorun var. L'' @ [CHR 0xC3, CHR 0xBC] @ ''tfen geli'' @ [CHR 0xC5, CHR 0x9F] @
     ''tiriciye bildirin (Ge'' @ [CHR 0xC3, CHR 0xA7] @ ''ersiz API Anahtar'' @
     [CHR 0xC4, CHR 0xB1] @ '').''"

definition service_error_prefix :: string where
  "service_error_prefix =
     [CHR 0xF0, CHR 0x9F, CHR 0xA4, CHR 0x96] @ '' Gemini ile ileti'' @ [CHR 0xC5, CHR 0x9F] @
     ''imde bir sorun olu'' @ [CHR 0xC5, CHR 0x9F] @ ''tu: ''"

definition not_understood_message :: string where
  "not_understood_message =
     [CHR 0xF0, CHR 0x9F, CHR 0xA4, CHR 0x96] @ '' Anlayamad'' @ [CHR 0xC4, CHR 0xB1] @
     ''m, l'' @ [CHR 0xC3, CHR 0xBC] @ ''tfen ba'' @ [CHR 0xC5, CHR 0x9F] @ ''ka '' @
     [CHR 0xC5, CHR 0x9F] @ ''ekilde ifade edin.''"

definition connection_message :: string where
  "connection_message =
     [CHR 0xF0, CHR 0x9F, CHR 0xA4, CHR 0x96] @ '' '' @ [CHR 0xC3, CHR 0x9C] @ ''zg'' @
     [CHR 0xC3, CHR 0xBC] @ ''n'' @ [CHR 0xC3, CHR 0xBC] @ ''m, '' @ [CHR 0xC5, CHR 0x9F] @
     ''u anda Gemini ile ba'' @ [CHR 0xC4, CHR 0x9F] @ ''lant'' @ [CHR 0xC4, CHR 0xB1] @
     '' kuram'' @ [CHR 0xC4, CHR 0xB1] @ ''yorum. L'' @ [CHR 0xC3, CHR 0xBC] @
     ''tfen internet ba'' @ [CHR 0xC4, CHR 0x9F] @ ''lant'' @ [CHR 0xC4, CHR 0xB1] @ ''n'' @
     [CHR 0xC4, CHR 0xB1] @ ''z'' @ [CHR 0xC4, CHR 0xB1] @
     '' kontrol edin veya daha sonra tekrar deneyin.''"

text \<open>
  \<^verbatim>\<open>data.candidates?.[0]?.content?.parts?.[0]?.text || "..."\<close>: the first candidate's
  text when it is a non-empty string, the fixed reply otherwise.
\<close>

definition first_candidate_text :: "gemini_data \<Rightarrow> string" where
  "first_candidate_text data =
     (case first_opt (gem_candidates data) of
        None \<Rightarrow> not_understood_message
      | Some c \<Rightarrow>
          (case cand_content c of
             None \<Rightarrow> not_understood_message
           | Some ct \<Rightarrow>
               (case first_opt (content_parts ct) of
                  None \<Rightarrow> not_understood_message
                | Some p \<Rightarrow>
                    (case part_text p of
                       None \<Rightarrow> not_understood_message
                     | Some t \<Rightarrow> if t \<noteq> [] then t else not_understood_message))))"

text \<open>
  \<^verbatim>\<open>data.error.code === 400 && data.error.message.includes("API key not valid")\<close>:
  the method call throws a TypeError when the code is 400 and \<^verbatim>\<open>message\<close> is missing.
\<close>

definition api_key_invalid :: "gemini_error \<Rightarrow> js_error + bool" where
  "api_key_invalid err =
     (if err_code err = 400
      then (case err_message err of
              None \<Rightarrow> Inl TypeError
            | Some m \<Rightarrow> Inr (js_includes m ''API key not valid''))
      else Inr False)"

text \<open>The body of the \<^verbatim>\<open>try\<close> block from the parsed response on.\<close>

definition gemini_reply :: "gemini_data \<Rightarrow> js_error + string" where
  "gemini_reply data =
     (case gem_error data of
        None \<Rightarrow> Inr (first_candidate_text data)
      | Some err \<Rightarrow>
          if err_code err = 429 then Inr quota_message
          else (case api_key_invalid err of
                  Inl e \<Rightarrow> Inl e
                | Inr True \<Rightarrow> Inr api_key_message
                | Inr False \<Rightarrow>
                    (case err_message err of
                       None \<Rightarrow> Inr (first_candidate_text data)
                     | Some m \<Rightarrow>
                         if m \<noteq> [] then Inr (service_error_prefix @ m)
                         else Inr (first_candidate_text data))))"

text \<open>
  \<open>service\<close> maps the prompt sent to what the request does. Everything runs inside
  \<^verbatim>\<open>try\<close>, and the \<^verbatim>\<open>catch\<close> block returns the connection apology.
\<close>

definition finalPrompt :: "string \<Rightarrow> string \<Rightarrow> string" where
  "finalPrompt txt context = (if context \<noteq> [] then context @ [CHR 0x0A] @ txt else txt)"

definition askGemini :: "(string \<Rightarrow> gemini_fetch) \<Rightarrow> string \<Rightarrow> string \<Rightarrow> string" where
  "askGemini service txt context =
     (case service (finalPrompt txt context) of
        FetchThrows \<Rightarrow> connection_message
      | FetchJson data \<Rightarrow>
          (case gemini_reply data of
             Inl e \<Rightarrow> connection_message
           | Inr r \<Rightarrow> r))"

section \<open>The dialogue manager\<close>

definition cancel_message :: string where
  "cancel_message = ''Randevu i'' @ [CHR 0xC5, CHR 0x9F] @ ''lemi iptal edildi.''"

definition ask_hastane :: string where
  "ask_hastane =
     ''Hangi hastane i'' @ [CHR 0xC3, CHR 0xA7] @ ''in randevu almak istiyorsunuz?''"

definition ask_bolum :: string where
  "ask_bolum =
     ''Hangi b'' @ [CHR 0xC3, CHR 0xB6] @ ''l'' @ [CHR 0xC3, CHR 0xBC] @ ''m i'' @
     [CHR 0xC3, CHR 0xA7] @ ''in randevu almak istiyorsunuz?''"

definition ask_datetime :: string where
  "ask_datetime = ''Hangi tarih ve saatte randevu almak istiyorsunuz?''"

definition success_message :: string where
  "success_message =
     ''Randevunuz ba'' @ [CHR 0xC5, CHR 0x9F] @ ''ar'' @ [CHR 0xC4, CHR 0xB1] @ ''yla olu'' @
     [CHR 0xC5, CHR 0x9F] @ ''turuldu!''"

text \<open>The template literal bound to \<^verbatim>\<open>confirmation\<close>.\<close>

definition confirmation :: "session \<Rightarrow> string" where
  "confirmation s =
     [CHR 0xE2, CHR 0x9C, CHR 0x85] @ '' Onay: '' @ toString (hastane s) @
     '' hastanesi, '' @ toString (bolum s) @
     '' b'' @ [CHR 0xC3, CHR 0xB6] @ ''l'' @ [CHR 0xC3, CHR 0xBC] @ ''m'' @
     [CHR 0xC3, CHR 0xBC] @ '' i'' @ [CHR 0xC3, CHR 0xA7] @ ''in '' @ toString (datetime s) @
     '' tarihine randevu talebiniz al'' @ [CHR 0xC4, CHR 0xB1] @ ''nd'' @
     [CHR 0xC4, CHR 0xB1] @ ''. Onayl'' @ [CHR 0xC4, CHR 0xB1] @
     ''yor musunuz? (evet/hay'' @ [CHR 0xC4, CHR 0xB1] @ ''r)''"

text \<open>The condition of the \<^verbatim>\<open>if\<close> that guards the cancellation branch.\<close>

definition cancel_requested :: "string \<Rightarrow> bool" where
  "cancel_requested txt = (js_includes txt ''iptal'' \<or> js_includes txt ''cancel'')"

text \<open>The condition of the \<^verbatim>\<open>if\<close> that guards the appointment flow.\<close>

definition flow_entered :: "string \<Rightarrow> string option \<Rightarrow> rat \<Rightarrow> session \<Rightarrow> bool" where
  "flow_entered txt intent confidence s =
     (let requiresRandevuKeyword = True;
          hasRandevuKeyword = js_includes txt ''randevu''
      in (requiresRandevuKeyword \<and> hasRandevuKeyword \<and> intent = Some ''randevu_al''
            \<and> confidence > 7 / 10)
         \<or> (\<not> requiresRandevuKeyword \<and> intent = Some ''randevu_al'' \<and> confidence > 7 / 10)
         \<or> truthy (hastane s) \<or> truthy (bolum s) \<or> truthy (datetime s))"

text \<open>The body of that \<^verbatim>\<open>if\<close>: the new session and the reply.\<close>

definition appointment_flow :: "string \<Rightarrow> session \<Rightarrow> session \<times> string" where
  "appointment_flow txt s =
     (if \<not> truthy (hastane s) then (s, ask_hastane)
      else if \<not> truthy (bolum s) then (s, ask_bolum)
      else if \<not> truthy (datetime s) then (s, ask_datetime)
      else if \<not> js_includes txt ''evet'' then (s, confirmation s)
      else (reset_session s, success_message))"

text \<open>The string built in \<^verbatim>\<open>geminiContextForPrompt\<close>.\<close>

definition gemini_context :: "string \<Rightarrow> string option \<Rightarrow> rat \<Rightarrow> string" where
  "gemini_context userMessage intent confidence =
     (''Kullan'' @ [CHR 0xC4, CHR 0xB1] @ ''c'' @ [CHR 0xC4, CHR 0xB1] @ ''n'' @
      [CHR 0xC4, CHR 0xB1] @ ''n mesaj'' @ [CHR 0xC4, CHR 0xB1] @ '': '' @ [CHR 0x22] @
      userMessage @ [CHR 0x22] @ ''.'') @
     (case intent of
        None \<Rightarrow>
          '' Wit.ai belirli bir niyet belirleyemedi veya randevu ak'' @
          [CHR 0xC4, CHR 0xB1, CHR 0xC5, CHR 0x9F, CHR 0xC4, CHR 0xB1] @ ''na girilmedi.''
      | Some i \<Rightarrow>
          if i \<noteq> [] \<and> i \<noteq> ''randevu_al'' \<and> confidence > 1 / 2
          then '' Wit.ai bunu '' @ [CHR 0x22] @ i @ [CHR 0x22] @ '' niyeti olarak alg'' @
               [CHR 0xC4, CHR 0xB1] @ ''lad'' @ [CHR 0xC4, CHR 0xB1] @ ''.''
          else '' Wit.ai belirli bir niyet belirleyemedi veya randevu ak'' @
               [CHR 0xC4, CHR 0xB1, CHR 0xC5, CHR 0x9F, CHR 0xC4, CHR 0xB1] @ ''na girilmedi.'') @
     ('' L'' @ [CHR 0xC3, CHR 0xBC] @ ''tfen do'' @ [CHR 0xC4, CHR 0x9F] @
      ''al ve sohbetvari bir '' @ [CHR 0xC5, CHR 0x9F] @ ''ekilde yan'' @
      [CHR 0xC4, CHR 0xB1] @ ''t verin.'')"

text \<open>
  \<^verbatim>\<open>generateResponse(witData, userMessage)\<close> on the session \<open>s\<close>: the session it leaves
  and either the error it throws or the reply it returns.
\<close>

definition generateResponse ::
  "(string \<Rightarrow> string) \<Rightarrow> (string \<Rightarrow> gemini_fetch) \<Rightarrow> session \<Rightarrow> wit_data \<Rightarrow> string
     \<Rightarrow> session \<times> (js_error + string)" where
  "generateResponse lc service s witData userMessage =
     (let txt = lc userMessage;
          intent = top_intent witData;
          confidence = top_confidence witData;
          ents = wit_entities witData
      in case entity_merge s ents of
           (s', Some e) \<Rightarrow> (s', Inl e)
         | (s', None) \<Rightarrow>
             if cancel_requested txt then (reset_session s', Inr cancel_message)
             else if flow_entered txt intent confidence s'
             then (case appointment_flow txt s' of (s'', r) \<Rightarrow> (s'', Inr r))
             else (s', Inr (askGemini service userMessage
                              (gemini_context userMessage intent confidence))))"

section \<open>The intent client and the command-line loop\<close>

text \<open>
  What the request of \<^verbatim>\<open>askWit\<close> does: \<^verbatim>\<open>fetch\<close> or \<^verbatim>\<open>res.json()\<close> throws, the status is
  not a success, or the parsed body is returned.
\<close>

datatype wit_fetch = WitThrows | WitNotOk | WitJson wit_data

definition askWit :: "(string \<Rightarrow> wit_fetch) \<Rightarrow> string \<Rightarrow> js_error + wit_data" where
  "askWit wit txt =
     (case wit txt of
        WitThrows \<Rightarrow> Inl Error
      | WitNotOk \<Rightarrow> Inl Error
      | WitJson witData \<Rightarrow> Inr witData)"

definition chat_error_line :: string where
  "chat_error_line =
     ''Bot: '' @ [CHR 0xC3, CHR 0x9C] @ ''zg'' @ [CHR 0xC3, CHR 0xBC] @ ''n'' @
     [CHR 0xC3, CHR 0xBC] @ ''m, bir sorun olu'' @ [CHR 0xC5, CHR 0x9F] @ ''tu. L'' @
     [CHR 0xC3, CHR 0xBC] @ ''tfen tekrar deneyin.''"

definition chat_goodbye_line :: string where
  "chat_goodbye_line =
     ''Bot: G'' @ [CHR 0xC3, CHR 0xB6] @ ''r'' @ [CHR 0xC3, CHR 0xBC, CHR 0xC5, CHR 0x9F] @
     ''mek '' @ [CHR 0xC3, CHR 0xBC] @ ''zere!''"

text \<open>
  One run of the callback of \<^verbatim>\<open>chatLoop\<close> on an input line: on \<^verbatim>\<open>exit\<close> it prints the
  goodbye line and closes the loop, and otherwise it prints one line, after which
  \<^verbatim>\<open>chatLoop\<close> is called again. Either way the output carries the line printed.
\<close>

datatype turn_output = Closed string | Printed string

definition chat_turn ::
  "(string \<Rightarrow> string) \<Rightarrow> (string \<Rightarrow> wit_fetch) \<Rightarrow> (string \<Rightarrow> gemini_fetch) \<Rightarrow> session \<Rightarrow> string
     \<Rightarrow> session \<times> turn_output" where
  "chat_turn lc wit service s userInput =
     (if lc userInput = ''exit'' then (s, Closed chat_goodbye_line)
      else case askWit wit userInput of
             Inl err \<Rightarrow> (s, Printed chat_error_line)
           | Inr witData \<Rightarrow>
               (case generateResponse lc service s witData userInput of
                  (s', Inl err) \<Rightarrow> (s', Printed chat_error_line)
                | (s', Inr botResponse) \<Rightarrow> (s', Printed (''Bot: '' @ botResponse))))"

fun chatLoop ::
  "(string \<Rightarrow> string) \<Rightarrow> (string \<Rightarrow> wit_fetch) \<Rightarrow> (string \<Rightarrow> gemini_fetch) \<Rightarrow> session \<Rightarrow> string list
     \<Rightarrow> session \<times> string list" where
  "chatLoop lc wit service s [] = (s, [])"
| "chatLoop lc wit service s (userInput # rest) =
     (case chat_turn lc wit service s userInput of
        (s', Closed line) \<Rightarrow> (s', [line])
      | (s', Printed line) \<Rightarrow>
          (case chatLoop lc wit service s' rest of (s'', out) \<Rightarrow> (s'', line # out)))"

section \<open>The session as the specification sees it\<close>

text \<open>
  The specification's Session has three optional strings. A slot is absent when the code
  treats it as missing, that is when its value is falsy.
\<close>

definition absent :: "jsval \<Rightarrow> bool" where
  "absent v = (\<not> truthy v)"

definition slot_view :: "jsval \<Rightarrow> string option" where
  "slot_view v = (case v of Str x \<Rightarrow> if x = [] then None else Some x | _ \<Rightarrow> None)"

definition session_view :: "session \<Rightarrow> string option \<times> string option \<times> string option" where
  "session_view s = (slot_view (hastane s), slot_view (bolum s), slot_view (datetime s))"

text \<open>An operand of a \<^verbatim>\<open>||\<close> chain yields a value when it does not throw and is truthy.\<close>

definition yields :: "js_error + jsval \<Rightarrow> bool" where
  "yields x = (case x of Inl e \<Rightarrow> False | Inr v \<Rightarrow> truthy v)"

section \<open>Facts about the model\<close>

subsection \<open>The \<^verbatim>\<open>||\<close> chain and the entity merge\<close>

lemma or_chain_truthy: "truthy v \<Longrightarrow> or_chain v xs = Inr v"
  by (cases xs) simp_all

lemma or_chain_total: "\<exists>r. or_chain v (map Inr ws) = Inr r"
  by (induction ws arbitrary: v) auto

lemma aliases_Some:
  "hastane_aliases (Some m) = map Inr (map projr (hastane_aliases (Some m)))"
  "bolum_aliases (Some m) = map Inr (map projr (bolum_aliases (Some m)))"
  "datetime_aliases (Some m) = map Inr (map projr (datetime_aliases (Some m)))"
  by (simp_all add: hastane_aliases_def bolum_aliases_def datetime_aliases_def entity_value_def entity_values_value_def)

subsection \<open>The fixed replies differ\<close>


lemma gem_distinct:
  "distinct [quota_message, api_key_message, connection_message, not_understood_message]"
  "service_error_prefix @ m \<noteq> quota_message"
  "service_error_prefix @ m \<noteq> api_key_message"
  "service_error_prefix @ m \<noteq> connection_message"
  "service_error_prefix @ m \<noteq> not_understood_message"
  by (simp_all add: quota_message_def api_key_message_def connection_message_def not_understood_message_def service_error_prefix_def)

subsection \<open>The session after the merge\<close>

lemma entity_merge_hastane:
  "hastane (fst (entity_merge s ents)) =
     (case or_chain (hastane s) (hastane_aliases ents) of Inl e \<Rightarrow> hastane s | Inr h \<Rightarrow> h)"
  by (simp add: entity_merge_def Let_def split: sum.splits)

lemma entity_merge_bolum:
  "bolum (fst (entity_merge s ents)) =
     (case or_chain (hastane s) (hastane_aliases ents) of
        Inl e \<Rightarrow> bolum s
      | Inr h \<Rightarrow> (case or_chain (bolum s) (bolum_aliases ents) of Inl e \<Rightarrow> bolum s | Inr b \<Rightarrow> b))"
  by (simp add: entity_merge_def Let_def split: sum.splits)

lemma entity_merge_datetime:
  "datetime (fst (entity_merge s ents)) =
     (case or_chain (hastane s) (hastane_aliases ents) of
        Inl e \<Rightarrow> datetime s
      | Inr h \<Rightarrow>
          (case or_chain (bolum s) (bolum_aliases ents) of
             Inl e \<Rightarrow> datetime s
           | Inr b \<Rightarrow>
               (case or_chain (datetime s) (datetime_aliases ents) of
                  Inl e \<Rightarrow> datetime s
                | Inr d \<Rightarrow> d)))"
  by (simp add: entity_merge_def Let_def split: sum.splits)

lemma entity_merge_keeps_filled:
  "truthy (hastane s) \<Longrightarrow> hastane (fst (entity_merge s ents)) = hastane s"
  "truthy (bolum s) \<Longrightarrow> bolum (fst (entity_merge s ents)) = bolum s"
  "truthy (datetime s) \<Longrightarrow> datetime (fst (entity_merge s ents)) = datetime s"
  by (simp_all add: entity_merge_hastane entity_merge_bolum entity_merge_datetime
      or_chain_truthy split: sum.splits)

lemma entity_merge_all_filled:
  "truthy (hastane s) \<Longrightarrow> truthy (bolum s) \<Longrightarrow> truthy (datetime s) \<Longrightarrow>
     entity_merge s ents = (s, None)"
  by (simp add: entity_merge_def Let_def or_chain_truthy)

lemma entity_merge_without_entities:
  "\<not> (truthy (hastane s) \<and> truthy (bolum s) \<and> truthy (datetime s)) \<Longrightarrow>
     entity_merge s None = (s, Some TypeError)"
  by (cases "truthy (hastane s)"; cases "truthy (bolum s)")
     (simp_all add: entity_merge_def Let_def or_chain_truthy hastane_aliases_def
        bolum_aliases_def datetime_aliases_def entity_value_def)

lemma entity_merge_with_entities: "snd (entity_merge s (Some m)) = None"
proof -
  obtain h where h: "or_chain (hastane s) (hastane_aliases (Some m)) = Inr h"
    using or_chain_total aliases_Some(1) by metis
  obtain b where b: "or_chain (bolum s) (bolum_aliases (Some m)) = Inr b"
    using or_chain_total aliases_Some(2) by metis
  obtain d where d: "or_chain (datetime s) (datetime_aliases (Some m)) = Inr d"
    using or_chain_total aliases_Some(3) by metis
  from h b d show ?thesis
    by (simp add: entity_merge_def Let_def)
qed

lemma entity_merge_error_unchanged:
  assumes "entity_merge s ents = (s', Some e)"
  shows "s' = s \<and> e = TypeError \<and> ents = None"
proof (cases ents)
  case None
  show ?thesis
  proof (cases "truthy (hastane s) \<and> truthy (bolum s) \<and> truthy (datetime s)")
    case True
    then have "entity_merge s ents = (s, None)"
      by (simp add: entity_merge_all_filled)
    with assms show ?thesis by simp
  next
    case False
    then have "entity_merge s None = (s, Some TypeError)"
      by (rule entity_merge_without_entities)
    with assms None show ?thesis by simp
  qed
next
  case (Some m)
  have "snd (entity_merge s (Some m)) = None"
    by (rule entity_merge_with_entities)
  with assms Some show ?thesis by simp
qed

lemma flow_entered_when_filled:
  assumes "truthy (hastane s) \<or> truthy (bolum s) \<or> truthy (datetime s)"
  shows "flow_entered txt i c (fst (entity_merge s ents))"
  using assms entity_merge_keeps_filled [of s ents]
  by (auto simp: flow_entered_def)

subsection \<open>The four ways through \<^verbatim>\<open>generateResponse\<close>\<close>

lemma generateResponse_merge_error:
  "entity_merge s (wit_entities w) = (s', Some e) \<Longrightarrow>
     generateResponse lc service s w msg = (s', Inl e)"
  by (simp add: generateResponse_def)

lemma generateResponse_cancel:
  "entity_merge s (wit_entities w) = (s', None) \<Longrightarrow> cancel_requested (lc msg) \<Longrightarrow>
     generateResponse lc service s w msg = (reset_session s', Inr cancel_message)"
  by (simp add: generateResponse_def)

lemma generateResponse_flow:
  "entity_merge s (wit_entities w) = (s', None) \<Longrightarrow> \<not> cancel_requested (lc msg) \<Longrightarrow>
   flow_entered (lc msg) (top_intent w) (top_confidence w) s' \<Longrightarrow>
     generateResponse lc service s w msg =
       (fst (appointment_flow (lc msg) s'), Inr (snd (appointment_flow (lc msg) s')))"
  by (simp add: generateResponse_def split: prod.splits)

lemma generateResponse_fallback:
  "entity_merge s (wit_entities w) = (s', None) \<Longrightarrow> \<not> cancel_requested (lc msg) \<Longrightarrow>
   \<not> flow_entered (lc msg) (top_intent w) (top_confidence w) s' \<Longrightarrow>
     generateResponse lc service s w msg =
       (s', Inr (askGemini service msg (gemini_context msg (top_intent w) (top_confidence w))))"
  by (simp add: generateResponse_def)

lemma reset_session_initial: "reset_session s = initial_session"
  by (simp add: reset_session_def initial_session_def)

lemma generateResponse_cases:
  obtains (throws) s' e where "entity_merge s (wit_entities w) = (s', Some e)"
      "generateResponse lc service s w msg = (s', Inl e)"
    | (cancel) s' where "entity_merge s (wit_entities w) = (s', None)"
      "cancel_requested (lc msg)"
      "generateResponse lc service s w msg = (reset_session s', Inr cancel_message)"
    | (flow) s' where "entity_merge s (wit_entities w) = (s', None)"
      "\<not> cancel_requested (lc msg)"
      "flow_entered (lc msg) (top_intent w) (top_confidence w) s'"
      "generateResponse lc service s w msg =
         (fst (appointment_flow (lc msg) s'), Inr (snd (appointment_flow (lc msg) s')))"
    | (fallback) s' where "entity_merge s (wit_entities w) = (s', None)"
      "\<not> cancel_requested (lc msg)"
      "\<not> flow_entered (lc msg) (top_intent w) (top_confidence w) s'"
      "generateResponse lc service s w msg =
         (s', Inr (askGemini service msg (gemini_context msg (top_intent w) (top_confidence w))))"
proof -
  obtain s' r where m: "entity_merge s (wit_entities w) = (s', r)"
    by (cases "entity_merge s (wit_entities w)")
  show thesis
  proof (cases r)
    case (Some e)
    with m have m': "entity_merge s (wit_entities w) = (s', Some e)" by simp
    from throws [OF m' generateResponse_merge_error [OF m']] show thesis .
  next
    case None
    with m have m': "entity_merge s (wit_entities w) = (s', None)" by simp
    show thesis
    proof (cases "cancel_requested (lc msg)")
      case True
      from cancel [OF m' True generateResponse_cancel [where lc = lc and msg = msg, OF m' True]]
      show thesis .
    next
      case nc: False
      show thesis
      proof (cases "flow_entered (lc msg) (top_intent w) (top_confidence w) s'")
        case True
        from flow [OF m' nc True
            generateResponse_flow [where lc = lc and msg = msg, OF m' nc True]]
        show thesis .
      next
        case False
        from fallback [OF m' nc False
            generateResponse_fallback [where lc = lc and msg = msg, OF m' nc False]]
        show thesis .
      qed
    qed
  qed
qed

section \<open>The claims\<close>

subsection \<open>C1: the dialogue manager and a classifier result without entities\<close>

text \<open>
  With an \<^verbatim>\<open>entities\<close> mapping, and also without one when the three slots are filled,
  \<^verbatim>\<open>generateResponse\<close> returns a reply; the only error it throws is the TypeError of
  indexing a missing \<^verbatim>\<open>entities\<close>, and then it leaves the session as it was.
\<close>

lemma generateResponse_returns:
  assumes "wit_entities w \<noteq> None
    \<or> (truthy (hastane s) \<and> truthy (bolum s) \<and> truthy (datetime s))"
  shows "\<exists>r. snd (generateResponse lc service s w msg) = Inr r"
proof (cases rule: generateResponse_cases [of s w lc service msg])
  case (throws s' e)
  from entity_merge_error_unchanged [OF throws(1)] entity_merge_all_filled [of s "wit_entities w"]
    throws(1) assms
  show ?thesis by auto
qed simp_all

lemma generateResponse_only_TypeError:
  assumes "snd (generateResponse lc service s w msg) = Inl e"
  shows "e = TypeError \<and> wit_entities w = None \<and> fst (generateResponse lc service s w msg) = s"
proof (cases rule: generateResponse_cases [of s w lc service msg])
  case (throws s' e')
  with entity_merge_error_unchanged [OF throws(1)] assms show ?thesis by simp
qed (use assms in auto)

text \<open>
  C1 says that \<^verbatim>\<open>generateResponse\<close> raises no error, also when the classifier result
  has no \<^verbatim>\<open>entities\<close> mapping. The code indexes \<^verbatim>\<open>entities\<close> without optional
  chaining, although it reads \<^verbatim>\<open>witData.intents?.[0]\<close> with it: on the initial session,
  for every message and every classifier result whose \<^verbatim>\<open>entities\<close> key is missing, the
  call throws a TypeError in the first assignment and returns no reply.
\<close>

theorem generateResponse_throws_without_entities:
  "generateResponse lc service initial_session (witData\<lparr>wit_entities := None\<rparr>) userMessage
     = (initial_session, Inl TypeError)"
proof -
  have "\<not> (truthy (hastane initial_session) \<and> truthy (bolum initial_session)
            \<and> truthy (datetime initial_session))"
    by (simp add: initial_session_def)
  then have "entity_merge initial_session None = (initial_session, Some TypeError)"
    by (rule entity_merge_without_entities)
  then show ?thesis
    by (simp add: generateResponse_merge_error)
qed

subsection \<open>C2: cancellation\<close>

text \<open>
  When the entity merge completes, a message with a cancellation keyword resets the
  session and is answered with the fixed cancellation reply; so it is whenever the
  \<^verbatim>\<open>entities\<close> mapping is present, and whenever all three slots are filled.
\<close>

lemma cancellation_with_entities:
  assumes "wit_entities w = Some m" and "cancel_requested (lc msg)"
  shows "generateResponse lc service s w msg = (initial_session, Inr cancel_message)"
proof -
  obtain s' r where m: "entity_merge s (Some m) = (s', r)"
    by (cases "entity_merge s (Some m)")
  with entity_merge_with_entities [of s m] assms(1)
  have "entity_merge s (wit_entities w) = (s', None)" by simp
  from generateResponse_cancel [where lc = lc and msg = msg, OF this assms(2)]
  show ?thesis by (simp add: reset_session_initial)
qed

lemma cancellation_when_filled:
  assumes "truthy (hastane s)" "truthy (bolum s)" "truthy (datetime s)"
    and "cancel_requested (lc msg)"
  shows "generateResponse lc service s w msg = (initial_session, Inr cancel_message)"
proof -
  from assms(1-3) have "entity_merge s (wit_entities w) = (s, None)"
    by (rule entity_merge_all_filled)
  from generateResponse_cancel [where lc = lc and msg = msg, OF this assms(4)]
  show ?thesis by (simp add: reset_session_initial)
qed

text \<open>
  C2 says that for every session and every classifier result a message with a
  cancellation keyword clears the three slots and is answered with the fixed
  cancellation reply. With the facility filled, the department and the date absent, and
  a classifier result without \<^verbatim>\<open>entities\<close>, the message \<^verbatim>\<open>iptal\<close> has the keyword,
  and the call throws a TypeError before the cancellation check: the session keeps its
  facility and no reply is returned. It is the defect of C1.
\<close>

theorem cancellation_throws_without_entities:
  "cancel_requested (ascii_lower ''iptal'') \<and>
   generateResponse ascii_lower (\<lambda>p. FetchThrows)
       \<lparr>hastane = Str ''Acibadem'', bolum = Null, datetime = Null\<rparr>
       \<lparr>wit_intents = None, wit_entities = None\<rparr> ''iptal''
     = (\<lparr>hastane = Str ''Acibadem'', bolum = Null, datetime = Null\<rparr>, Inl TypeError)"
proof -
  have "entity_merge \<lparr>hastane = Str ''Acibadem'', bolum = Null, datetime = Null\<rparr> None
          = (\<lparr>hastane = Str ''Acibadem'', bolum = Null, datetime = Null\<rparr>, Some TypeError)"
    by (rule entity_merge_without_entities) simp
  then show ?thesis
    by (simp add: generateResponse_merge_error cancel_requested_def ascii_lower_def)
qed

subsection \<open>C3: the confidence threshold of the flow entry\<close>

lemma top_of_first_intent:
  "wit_intents w = Some (\<lparr>intent_name = n, intent_confidence = Some c\<rparr> # others) \<Longrightarrow>
     top_intent w = n \<and> top_confidence w = c"
  by (simp add: top_intent_def top_confidence_def)

text \<open>
  C3: the message has the trigger keyword \<^verbatim>\<open>randevu\<close> and no cancellation keyword, the
  top intent is \<^verbatim>\<open>randevu_al\<close> with confidence \<open>c\<close>, every slot is absent on entry and
  the merge completes without filling one. Then the appointment flow is entered exactly
  when \<open>c\<close> is strictly greater than 0.7: the reply asks for the facility when it is,
  and is what the generative fallback returns when it is not.
\<close>

theorem flow_entry_threshold:
  assumes kw: "js_includes (lc msg) ''randevu''"
    and intent: "wit_intents w =
        Some (\<lparr>intent_name = Some ''randevu_al'', intent_confidence = Some c\<rparr> # others)"
    and nocancel: "\<not> cancel_requested (lc msg)"
    and before: "absent (hastane s)" "absent (bolum s)" "absent (datetime s)"
    and merge: "entity_merge s (wit_entities w) = (s', None)"
    and after: "absent (hastane s')" "absent (bolum s')" "absent (datetime s')"
  shows "(flow_entered (lc msg) (top_intent w) (top_confidence w) s' \<longleftrightarrow> c > 7 / 10) \<and>
         generateResponse lc service s w msg =
           (if c > 7 / 10 then (s', Inr ask_hastane)
            else (s', Inr (askGemini service msg
                             (gemini_context msg (top_intent w) (top_confidence w)))))"
proof -
  from top_of_first_intent [OF intent]
  have top: "top_intent w = Some ''randevu_al''" "top_confidence w = c" by simp_all
  from kw after top
  have iff: "flow_entered (lc msg) (top_intent w) (top_confidence w) s' \<longleftrightarrow> c > 7 / 10"
    by (simp add: flow_entered_def absent_def)
  show ?thesis
  proof (cases "c > 7 / 10")
    case True
    with iff have "flow_entered (lc msg) (top_intent w) (top_confidence w) s'" by simp
    from generateResponse_flow [where lc = lc and msg = msg, OF merge nocancel this] after(1) True iff show ?thesis
      by (simp add: appointment_flow_def absent_def)
  next
    case False
    with iff have "\<not> flow_entered (lc msg) (top_intent w) (top_confidence w) s'" by simp
    from generateResponse_fallback [where lc = lc and msg = msg, OF merge nocancel this] False iff show ?thesis
      by simp
  qed
qed

theorem flow_entry_threshold_witness:
  "generateResponse ascii_lower (\<lambda>p. FetchThrows) initial_session
       \<lparr>wit_intents = Some [\<lparr>intent_name = Some ''randevu_al'', intent_confidence = Some (71 / 100)\<rparr>],
        wit_entities = Some Map.empty\<rparr>
       ''randevu almak istiyorum''
     = (\<lparr>hastane = Undefined, bolum = Undefined, datetime = Undefined\<rparr>, Inr ask_hastane) \<and>
   generateResponse ascii_lower (\<lambda>p. FetchThrows) initial_session
       \<lparr>wit_intents = Some [\<lparr>intent_name = Some ''randevu_al'', intent_confidence = Some (7 / 10)\<rparr>],
        wit_entities = Some Map.empty\<rparr>
       ''randevu almak istiyorum''
     = (\<lparr>hastane = Undefined, bolum = Undefined, datetime = Undefined\<rparr>, Inr connection_message)"
proof -
  let ?msg = "''randevu almak istiyorum''"
  let ?s' = "\<lparr>hastane = Undefined, bolum = Undefined, datetime = Undefined\<rparr>"
  let ?w = "\<lambda>c. \<lparr>wit_intents = Some [\<lparr>intent_name = Some ''randevu_al'', intent_confidence = Some c\<rparr>],
        wit_entities = Some Map.empty\<rparr>"
  have kw: "js_includes (ascii_lower ?msg) ''randevu''"
    by (simp add: ascii_lower_def)
  have nc: "\<not> cancel_requested (ascii_lower ?msg)"
    by (simp add: ascii_lower_def cancel_requested_def)
  have before: "absent (hastane initial_session)" "absent (bolum initial_session)"
      "absent (datetime initial_session)"
    by (simp_all add: initial_session_def absent_def)
  have merge: "entity_merge initial_session (wit_entities (?w c)) = (?s', None)" for c
    by (simp add: entity_merge_def initial_session_def hastane_aliases_def bolum_aliases_def
        datetime_aliases_def entity_value_def entity_values_value_def)
  have after: "absent (hastane ?s')" "absent (bolum ?s')" "absent (datetime ?s')"
    by (simp_all add: absent_def)
  have i: "wit_intents (?w c) = Some (\<lparr>intent_name = Some ''randevu_al'', intent_confidence = Some c\<rparr> # [])" for c
    by simp
  note t = flow_entry_threshold [where lc = ascii_lower and msg = ?msg and service = "\<lambda>p. FetchThrows",
      OF kw i nc before merge after]
  from t [of "71 / 100"] t [of "7 / 10"] show ?thesis
    by (simp add: askGemini_def)
qed

subsection \<open>C4: first write wins\<close>

lemma entity_merge_without_entities_fst: "fst (entity_merge s None) = s"
proof (cases "truthy (hastane s) \<and> truthy (bolum s) \<and> truthy (datetime s)")
  case True
  then show ?thesis by (simp add: entity_merge_all_filled)
next
  case False
  then show ?thesis by (simp add: entity_merge_without_entities)
qed

lemma or_chain_values:
  "\<not> truthy v \<Longrightarrow> or_chain v (map Inr ws) = Inr r \<Longrightarrow>
     (case find yields (map Inr ws) of Some (Inr a) \<Rightarrow> r = a | _ \<Rightarrow> \<not> truthy r)"
proof (induction ws arbitrary: v)
  case Nil
  then show ?case by simp
next
  case (Cons w ws)
  show ?case
  proof (cases "truthy w")
    case True
    with Cons.prems show ?thesis
      by (cases ws) (simp_all add: yields_def)
  next
    case False
    with Cons.prems have "or_chain w (map Inr ws) = Inr r" by simp
    from Cons.IH [OF False this] False show ?thesis by (simp add: yields_def)
  qed
qed

lemma aliases_without_entities:
  "find yields (hastane_aliases None) = None"
  "find yields (bolum_aliases None) = None"
  "find yields (datetime_aliases None) = None"
  by (simp_all add: hastane_aliases_def bolum_aliases_def datetime_aliases_def
      entity_value_def entity_values_value_def yields_def)

lemma slot_filled_from_values:
  assumes "\<not> truthy v"
  shows "case find yields (map Inr ws) of
           Some (Inr a) \<Rightarrow> (case or_chain v (map Inr ws) of Inl e \<Rightarrow> v | Inr h \<Rightarrow> h) = a
         | _ \<Rightarrow> \<not> truthy (case or_chain v (map Inr ws) of Inl e \<Rightarrow> v | Inr h \<Rightarrow> h)"
proof -
  obtain r where r: "or_chain v (map Inr ws) = Inr r"
    using or_chain_total by blast
  from or_chain_values [OF assms r] r show ?thesis
    by (simp split: option.splits sum.splits)
qed

lemma merged_slot_from_aliases:
  assumes "\<not> truthy v" and "xs = map Inr ws"
  shows "case find yields xs of
           Some (Inr a) \<Rightarrow> (case or_chain v xs of Inl e \<Rightarrow> v | Inr h \<Rightarrow> h) = a
         | _ \<Rightarrow> \<not> truthy (case or_chain v xs of Inl e \<Rightarrow> v | Inr h \<Rightarrow> h)"
  unfolding assms(2) by (rule slot_filled_from_values [OF assms(1)])

lemma merged_hastane:
  assumes "\<not> truthy (hastane s)"
  shows "case find yields (hastane_aliases ents) of
           Some (Inr a) \<Rightarrow> hastane (fst (entity_merge s ents)) = a
         | _ \<Rightarrow> \<not> truthy (hastane (fst (entity_merge s ents)))"
proof (cases ents)
  case None
  with assms show ?thesis
    by (simp add: aliases_without_entities(1) entity_merge_without_entities_fst)
next
  case (Some m)
  have eq: "hastane (fst (entity_merge s (Some m))) =
      (case or_chain (hastane s) (hastane_aliases (Some m)) of
         Inl e \<Rightarrow> hastane s | Inr h \<Rightarrow> h)"
    by (simp add: entity_merge_hastane)
  show ?thesis
    unfolding eq Some by (rule merged_slot_from_aliases [OF assms aliases_Some(1)])
qed

lemma merged_bolum:
  assumes "\<not> truthy (bolum s)"
  shows "case find yields (bolum_aliases ents) of
           Some (Inr a) \<Rightarrow> bolum (fst (entity_merge s ents)) = a
         | _ \<Rightarrow> \<not> truthy (bolum (fst (entity_merge s ents)))"
proof (cases ents)
  case None
  with assms show ?thesis
    by (simp add: aliases_without_entities(2) entity_merge_without_entities_fst)
next
  case (Some m)
  obtain h where h: "or_chain (hastane s) (hastane_aliases (Some m)) = Inr h"
    using or_chain_total aliases_Some(1) by metis
  have eq: "bolum (fst (entity_merge s (Some m))) =
      (case or_chain (bolum s) (bolum_aliases (Some m)) of
         Inl e \<Rightarrow> bolum s | Inr b \<Rightarrow> b)"
    by (simp add: entity_merge_bolum h)
  show ?thesis
    unfolding eq Some by (rule merged_slot_from_aliases [OF assms aliases_Some(2)])
qed

lemma merged_datetime:
  assumes "\<not> truthy (datetime s)"
  shows "case find yields (datetime_aliases ents) of
           Some (Inr a) \<Rightarrow> datetime (fst (entity_merge s ents)) = a
         | _ \<Rightarrow> \<not> truthy (datetime (fst (entity_merge s ents)))"
proof (cases ents)
  case None
  with assms show ?thesis
    by (simp add: aliases_without_entities(3) entity_merge_without_entities_fst)
next
  case (Some m)
  obtain h where h: "or_chain (hastane s) (hastane_aliases (Some m)) = Inr h"
    using or_chain_total aliases_Some(1) by metis
  obtain b where b: "or_chain (bolum s) (bolum_aliases (Some m)) = Inr b"
    using or_chain_total aliases_Some(2) by metis
  have eq: "datetime (fst (entity_merge s (Some m))) =
      (case or_chain (datetime s) (datetime_aliases (Some m)) of
         Inl e \<Rightarrow> datetime s | Inr d \<Rightarrow> d)"
    by (simp add: entity_merge_datetime h b)
  show ?thesis
    unfolding eq Some by (rule merged_slot_from_aliases [OF assms aliases_Some(3)])
qed

lemma appointment_flow_cases:
  "fst (appointment_flow txt s) = s \<or>
   (js_includes txt ''evet'' \<and> truthy (hastane s) \<and> truthy (bolum s) \<and> truthy (datetime s)
      \<and> appointment_flow txt s = (initial_session, success_message))"
  by (simp add: appointment_flow_def reset_session_initial)

lemma session_left_by_generateResponse:
  "fst (generateResponse lc service s w msg) = fst (entity_merge s (wit_entities w)) \<or>
   (cancel_requested (lc msg)
      \<and> generateResponse lc service s w msg = (initial_session, Inr cancel_message)) \<or>
   (js_includes (lc msg) ''evet''
      \<and> generateResponse lc service s w msg = (initial_session, Inr success_message))"
proof (cases rule: generateResponse_cases [of s w lc service msg])
  case (throws s' e)
  then show ?thesis by simp
next
  case (cancel s')
  then show ?thesis by (simp add: reset_session_initial)
next
  case (flow s')
  with appointment_flow_cases [of "lc msg" s'] show ?thesis by auto
next
  case (fallback s')
  then show ?thesis by simp
qed

text \<open>
  C4, for each of the three slots. A slot that is filled (truthy) on entry keeps its value
  through the entity merge. A slot that is absent on entry takes the value of the first
  operand of its alias list that yields a non-empty value, and stays absent when none
  does; this is stated of the session the merge leaves, also when an assignment throws.
  A slot that is filled on entry is absent after \<^verbatim>\<open>generateResponse\<close> only at the two
  resets: the cancellation, or the confirmed completion.
\<close>

theorem entity_merge_first_write_wins:
  "(truthy (hastane s) \<longrightarrow> hastane (fst (entity_merge s ents)) = hastane s) \<and>
   (truthy (bolum s) \<longrightarrow> bolum (fst (entity_merge s ents)) = bolum s) \<and>
   (truthy (datetime s) \<longrightarrow> datetime (fst (entity_merge s ents)) = datetime s) \<and>
   (absent (hastane s) \<longrightarrow>
      (case find yields (hastane_aliases ents) of
         Some (Inr a) \<Rightarrow> hastane (fst (entity_merge s ents)) = a
       | _ \<Rightarrow> absent (hastane (fst (entity_merge s ents))))) \<and>
   (absent (bolum s) \<longrightarrow>
      (case find yields (bolum_aliases ents) of
         Some (Inr a) \<Rightarrow> bolum (fst (entity_merge s ents)) = a
       | _ \<Rightarrow> absent (bolum (fst (entity_merge s ents))))) \<and>
   (absent (datetime s) \<longrightarrow>
      (case find yields (datetime_aliases ents) of
         Some (Inr a) \<Rightarrow> datetime (fst (entity_merge s ents)) = a
       | _ \<Rightarrow> absent (datetime (fst (entity_merge s ents))))) \<and>
   ((truthy (hastane s) \<and> absent (hastane (fst (generateResponse lc service s w msg))))
      \<or> (truthy (bolum s) \<and> absent (bolum (fst (generateResponse lc service s w msg))))
      \<or> (truthy (datetime s) \<and> absent (datetime (fst (generateResponse lc service s w msg))))
    \<longrightarrow> (cancel_requested (lc msg)
           \<and> generateResponse lc service s w msg = (initial_session, Inr cancel_message))
        \<or> (js_includes (lc msg) ''evet''
           \<and> generateResponse lc service s w msg = (initial_session, Inr success_message)))"
proof -
  have kept: "truthy (hastane s) \<longrightarrow> hastane (fst (entity_merge s ents)) = hastane s"
    "truthy (bolum s) \<longrightarrow> bolum (fst (entity_merge s ents)) = bolum s"
    "truthy (datetime s) \<longrightarrow> datetime (fst (entity_merge s ents)) = datetime s"
    by (simp_all add: entity_merge_keeps_filled)
  have filled: "absent (hastane s) \<longrightarrow>
      (case find yields (hastane_aliases ents) of
         Some (Inr a) \<Rightarrow> hastane (fst (entity_merge s ents)) = a
       | _ \<Rightarrow> absent (hastane (fst (entity_merge s ents))))"
    "absent (bolum s) \<longrightarrow>
      (case find yields (bolum_aliases ents) of
         Some (Inr a) \<Rightarrow> bolum (fst (entity_merge s ents)) = a
       | _ \<Rightarrow> absent (bolum (fst (entity_merge s ents))))"
    "absent (datetime s) \<longrightarrow>
      (case find yields (datetime_aliases ents) of
         Some (Inr a) \<Rightarrow> datetime (fst (entity_merge s ents)) = a
       | _ \<Rightarrow> absent (datetime (fst (entity_merge s ents))))"
    unfolding absent_def
    using merged_hastane [of s ents] merged_bolum [of s ents] merged_datetime [of s ents]
    by blast+
  have reset: "(truthy (hastane s) \<and> absent (hastane (fst (generateResponse lc service s w msg))))
      \<or> (truthy (bolum s) \<and> absent (bolum (fst (generateResponse lc service s w msg))))
      \<or> (truthy (datetime s) \<and> absent (datetime (fst (generateResponse lc service s w msg))))
    \<longrightarrow> (cancel_requested (lc msg)
           \<and> generateResponse lc service s w msg = (initial_session, Inr cancel_message))
        \<or> (js_includes (lc msg) ''evet''
           \<and> generateResponse lc service s w msg = (initial_session, Inr success_message))"
    using session_left_by_generateResponse [of lc service s w msg]
      entity_merge_keeps_filled [of s "wit_entities w"]
    by (auto simp: absent_def)
  from kept filled reset show ?thesis by blast
qed

theorem entity_merge_first_write_wins_witness:
  "truthy (hastane \<lparr>hastane = Str ''Acibadem'', bolum = Null, datetime = Null\<rparr>) \<and>
   hastane (fst (entity_merge \<lparr>hastane = Str ''Acibadem'', bolum = Null, datetime = Null\<rparr>
     (Some [''hastane'' \<mapsto> [\<lparr>ent_value = Str ''Memorial'', ent_values = None\<rparr>],
            ''bolum'' \<mapsto> [\<lparr>ent_value = Str ''Kardiyoloji'', ent_values = None\<rparr>]])))
     = Str ''Acibadem'' \<and>
   absent (bolum \<lparr>hastane = Str ''Acibadem'', bolum = Null, datetime = Null\<rparr>) \<and>
   bolum (fst (entity_merge \<lparr>hastane = Str ''Acibadem'', bolum = Null, datetime = Null\<rparr>
     (Some [''hastane'' \<mapsto> [\<lparr>ent_value = Str ''Memorial'', ent_values = None\<rparr>],
            ''bolum'' \<mapsto> [\<lparr>ent_value = Str ''Kardiyoloji'', ent_values = None\<rparr>]])))
     = Str ''Kardiyoloji'' \<and>
   absent (datetime \<lparr>hastane = Str ''Acibadem'', bolum = Null, datetime = Null\<rparr>) \<and>
   absent (datetime (fst (entity_merge \<lparr>hastane = Str ''Acibadem'', bolum = Null, datetime = Null\<rparr>
     (Some [''hastane'' \<mapsto> [\<lparr>ent_value = Str ''Memorial'', ent_values = None\<rparr>],
            ''bolum'' \<mapsto> [\<lparr>ent_value = Str ''Kardiyoloji'', ent_values = None\<rparr>]])))) \<and>
   absent (hastane (fst (generateResponse ascii_lower (\<lambda>p. FetchThrows)
     \<lparr>hastane = Str ''Acibadem'', bolum = Str ''Kardiyoloji'', datetime = Str ''yarin''\<rparr>
     \<lparr>wit_intents = None, wit_entities = None\<rparr> ''evet''))) \<and>
   generateResponse ascii_lower (\<lambda>p. FetchThrows)
     \<lparr>hastane = Str ''Acibadem'', bolum = Str ''Kardiyoloji'', datetime = Str ''yarin''\<rparr>
     \<lparr>wit_intents = None, wit_entities = None\<rparr> ''evet''
     = (initial_session, Inr success_message)"
proof -
  let ?s = "\<lparr>hastane = Str ''Acibadem'', bolum = Null, datetime = Null\<rparr>"
  let ?ents = "Some [''hastane'' \<mapsto> [\<lparr>ent_value = Str ''Memorial'', ent_values = None\<rparr>],
            ''bolum'' \<mapsto> [\<lparr>ent_value = Str ''Kardiyoloji'', ent_values = None\<rparr>]]"
  let ?f = "\<lparr>hastane = Str ''Acibadem'', bolum = Str ''Kardiyoloji'', datetime = Str ''yarin''\<rparr>"
  let ?w = "\<lparr>wit_intents = None, wit_entities = None\<rparr>"
  have h: "truthy (hastane ?s)" "absent (bolum ?s)" "absent (datetime ?s)"
    by (simp_all add: absent_def)
  have b: "find yields (bolum_aliases ?ents)
      = Some (Inr (Str ''Kardiyoloji''))"
    by (simp add: bolum_aliases_def entity_value_def yields_def)
  have d: "find yields (datetime_aliases ?ents) = None"
    by (simp add: datetime_aliases_def entity_value_def entity_values_value_def yields_def)
  have out: "truthy (hastane ?f)"
    "absent (hastane (fst (generateResponse ascii_lower (\<lambda>p. FetchThrows) ?f ?w ''evet'')))"
    by (simp_all add: absent_def generateResponse_def entity_merge_def or_chain_truthy
        cancel_requested_def ascii_lower_def flow_entered_def appointment_flow_def
        reset_session_def)
  have nc: "\<not> cancel_requested (ascii_lower ''evet'')"
    by (simp add: cancel_requested_def ascii_lower_def)
  from entity_merge_first_write_wins [where s = ?s and ents = ?ents] h b d
  have merge: "hastane (fst (entity_merge ?s ?ents)) = Str ''Acibadem''"
    "bolum (fst (entity_merge ?s ?ents)) = Str ''Kardiyoloji''"
    "absent (datetime (fst (entity_merge ?s ?ents)))"
    by simp_all
  from entity_merge_first_write_wins [where s = ?f and lc = ascii_lower
      and service = "\<lambda>p. FetchThrows" and w = ?w and msg = "''evet''"] out nc
  have "generateResponse ascii_lower (\<lambda>p. FetchThrows) ?f ?w ''evet''
      = (initial_session, Inr success_message)"
    by blast
  with h merge out show ?thesis by simp
qed

subsection \<open>C5: the flow asks for the next missing slot\<close>







subsection \<open>C6: the confirmation is repeated until it is accepted\<close>

text \<open>
  C6: when all three slots are filled on entry, a turn with neither a cancellation
  keyword nor \<^verbatim>\<open>evet\<close> returns the confirmation message and leaves the session as it
  was, whatever the classifier result is. The same holds on the turn whose merge fills
  the last slot, and every later such turn returns the identical message and the
  identical session. The message is the fixed text of the template around the three
  slot values, in the order facility, department, date and time, and what is embedded
  for a filled slot is the string the slot holds.
\<close>

theorem confirmation_reprompt:
  "(truthy (hastane s) \<and> truthy (bolum s) \<and> truthy (datetime s)
      \<and> \<not> cancel_requested (lc msg) \<and> \<not> js_includes (lc msg) ''evet''
    \<longrightarrow> generateResponse lc service s w msg = (s, Inr (confirmation s))
        \<and> confirmation s =
            [CHR 0xE2, CHR 0x9C, CHR 0x85] @ '' Onay: '' @ toString (hastane s) @
            '' hastanesi, '' @ toString (bolum s) @
            '' b'' @ [CHR 0xC3, CHR 0xB6] @ ''l'' @ [CHR 0xC3, CHR 0xBC] @ ''m'' @
            [CHR 0xC3, CHR 0xBC] @ '' i'' @ [CHR 0xC3, CHR 0xA7] @ ''in '' @
            toString (datetime s) @
            '' tarihine randevu talebiniz al'' @ [CHR 0xC4, CHR 0xB1] @ ''nd'' @
            [CHR 0xC4, CHR 0xB1] @ ''. Onayl'' @ [CHR 0xC4, CHR 0xB1] @
            ''yor musunuz? (evet/hay'' @ [CHR 0xC4, CHR 0xB1] @ ''r)''
        \<and> Str (toString (hastane s)) = hastane s
        \<and> Str (toString (bolum s)) = bolum s
        \<and> Str (toString (datetime s)) = datetime s) \<and>
   (entity_merge s (wit_entities w) = (s', None)
      \<and> truthy (hastane s') \<and> truthy (bolum s') \<and> truthy (datetime s')
      \<and> \<not> cancel_requested (lc msg) \<and> \<not> js_includes (lc msg) ''evet''
      \<and> \<not> cancel_requested (lc msg') \<and> \<not> js_includes (lc msg') ''evet''
    \<longrightarrow> generateResponse lc service s w msg = (s', Inr (confirmation s'))
        \<and> generateResponse lc service' s' w' msg' = (s', Inr (confirmation s'))
        \<and> confirmation s' =
            [CHR 0xE2, CHR 0x9C, CHR 0x85] @ '' Onay: '' @ toString (hastane s') @
            '' hastanesi, '' @ toString (bolum s') @
            '' b'' @ [CHR 0xC3, CHR 0xB6] @ ''l'' @ [CHR 0xC3, CHR 0xBC] @ ''m'' @
            [CHR 0xC3, CHR 0xBC] @ '' i'' @ [CHR 0xC3, CHR 0xA7] @ ''in '' @
            toString (datetime s') @
            '' tarihine randevu talebiniz al'' @ [CHR 0xC4, CHR 0xB1] @ ''nd'' @
            [CHR 0xC4, CHR 0xB1] @ ''. Onayl'' @ [CHR 0xC4, CHR 0xB1] @
            ''yor musunuz? (evet/hay'' @ [CHR 0xC4, CHR 0xB1] @ ''r)''
        \<and> Str (toString (hastane s')) = hastane s'
        \<and> Str (toString (bolum s')) = bolum s'
        \<and> Str (toString (datetime s')) = datetime s')"
proof -
  have turn: "generateResponse lc svc t v m = (t', Inr (confirmation t'))"
    if "entity_merge t (wit_entities v) = (t', None)"
      and "truthy (hastane t')" and "truthy (bolum t')" and "truthy (datetime t')"
      and "\<not> cancel_requested (lc m)" and "\<not> js_includes (lc m) ''evet''"
    for svc t v m t'
  proof -
    from that(2) have "flow_entered (lc m) (top_intent v) (top_confidence v) t'"
      by (simp add: flow_entered_def)
    from generateResponse_flow [where lc = lc and msg = m and service = svc,
        OF that(1) that(5) this] that(2-4) that(6)
    show ?thesis by (simp add: appointment_flow_def)
  qed
  have filled: "generateResponse lc svc t v m = (t, Inr (confirmation t))"
    if "truthy (hastane t)" and "truthy (bolum t)" and "truthy (datetime t)"
      and "\<not> cancel_requested (lc m)" and "\<not> js_includes (lc m) ''evet''"
    for svc t v m
    using turn [OF entity_merge_all_filled [OF that(1-3)] that] .
  have embedded: "Str (toString v) = v" if "truthy v" for v
    using that by (cases v) simp_all
  have message: "confirmation s =
            [CHR 0xE2, CHR 0x9C, CHR 0x85] @ '' Onay: '' @ toString (hastane s) @
            '' hastanesi, '' @ toString (bolum s) @
            '' b'' @ [CHR 0xC3, CHR 0xB6] @ ''l'' @ [CHR 0xC3, CHR 0xBC] @ ''m'' @
            [CHR 0xC3, CHR 0xBC] @ '' i'' @ [CHR 0xC3, CHR 0xA7] @ ''in '' @
            toString (datetime s) @
            '' tarihine randevu talebiniz al'' @ [CHR 0xC4, CHR 0xB1] @ ''nd'' @
            [CHR 0xC4, CHR 0xB1] @ ''. Onayl'' @ [CHR 0xC4, CHR 0xB1] @
            ''yor musunuz? (evet/hay'' @ [CHR 0xC4, CHR 0xB1] @ ''r)''"
    "confirmation s' =
            [CHR 0xE2, CHR 0x9C, CHR 0x85] @ '' Onay: '' @ toString (hastane s') @
            '' hastanesi, '' @ toString (bolum s') @
            '' b'' @ [CHR 0xC3, CHR 0xB6] @ ''l'' @ [CHR 0xC3, CHR 0xBC] @ ''m'' @
            [CHR 0xC3, CHR 0xBC] @ '' i'' @ [CHR 0xC3, CHR 0xA7] @ ''in '' @
            toString (datetime s') @
            '' tarihine randevu talebiniz al'' @ [CHR 0xC4, CHR 0xB1] @ ''nd'' @
            [CHR 0xC4, CHR 0xB1] @ ''. Onayl'' @ [CHR 0xC4, CHR 0xB1] @
            ''yor musunuz? (evet/hay'' @ [CHR 0xC4, CHR 0xB1] @ ''r)''"
    by (simp_all add: confirmation_def)
  from turn filled embedded message show ?thesis by blast
qed

theorem confirmation_reprompt_witness:
  "generateResponse ascii_lower (\<lambda>p. FetchThrows)
       \<lparr>hastane = Str ''Acibadem'', bolum = Str ''Kardiyoloji'', datetime = Undefined\<rparr>
       \<lparr>wit_intents = Some [],
        wit_entities = Some [''wit'' @ [CHR 0x24] @ ''datetime:datetime'' \<mapsto>
           [\<lparr>ent_value = Str ''2025-07-11T10:00'', ent_values = None\<rparr>]]\<rparr>
       ''yarin saat 10''
     = (\<lparr>hastane = Str ''Acibadem'', bolum = Str ''Kardiyoloji'',
          datetime = Str ''2025-07-11T10:00''\<rparr>,
        Inr (confirmation \<lparr>hastane = Str ''Acibadem'', bolum = Str ''Kardiyoloji'',
          datetime = Str ''2025-07-11T10:00''\<rparr>)) \<and>
   generateResponse ascii_lower (\<lambda>p. FetchThrows)
       \<lparr>hastane = Str ''Acibadem'', bolum = Str ''Kardiyoloji'',
          datetime = Str ''2025-07-11T10:00''\<rparr>
       \<lparr>wit_intents = None, wit_entities = None\<rparr>
       ''hayir''
     = (\<lparr>hastane = Str ''Acibadem'', bolum = Str ''Kardiyoloji'',
          datetime = Str ''2025-07-11T10:00''\<rparr>,
        Inr (confirmation \<lparr>hastane = Str ''Acibadem'', bolum = Str ''Kardiyoloji'',
          datetime = Str ''2025-07-11T10:00''\<rparr>)) \<and>
   confirmation \<lparr>hastane = Str ''Acibadem'', bolum = Str ''Kardiyoloji'',
          datetime = Str ''2025-07-11T10:00''\<rparr>
     = [CHR 0xE2, CHR 0x9C, CHR 0x85] @ '' Onay: Acibadem hastanesi, Kardiyoloji b'' @
       [CHR 0xC3, CHR 0xB6] @ ''l'' @ [CHR 0xC3, CHR 0xBC] @ ''m'' @ [CHR 0xC3, CHR 0xBC] @
       '' i'' @ [CHR 0xC3, CHR 0xA7] @ ''in 2025-07-11T10:00 tarihine randevu talebiniz al'' @
       [CHR 0xC4, CHR 0xB1] @ ''nd'' @ [CHR 0xC4, CHR 0xB1] @ ''. Onayl'' @
       [CHR 0xC4, CHR 0xB1] @ ''yor musunuz? (evet/hay'' @ [CHR 0xC4, CHR 0xB1] @ ''r)''"
proof -
  let ?svc = "\<lambda>p :: string. FetchThrows"
  let ?s3 = "\<lparr>hastane = Str ''Acibadem'', bolum = Str ''Kardiyoloji'', datetime = Undefined\<rparr>"
  let ?s4 = "\<lparr>hastane = Str ''Acibadem'', bolum = Str ''Kardiyoloji'',
          datetime = Str ''2025-07-11T10:00''\<rparr>"
  let ?w4 = "\<lparr>wit_intents = Some [],
        wit_entities = Some [''wit'' @ [CHR 0x24] @ ''datetime:datetime'' \<mapsto>
           [\<lparr>ent_value = Str ''2025-07-11T10:00'', ent_values = None\<rparr>]]\<rparr>"
  let ?w5 = "\<lparr>wit_intents = None, wit_entities = None\<rparr>"
  have m: "entity_merge ?s3 (wit_entities ?w4) = (?s4, None)"
    by (simp add: entity_merge_def hastane_aliases_def bolum_aliases_def datetime_aliases_def
        entity_value_def entity_values_value_def)
  have filled: "truthy (hastane ?s4)" "truthy (bolum ?s4)" "truthy (datetime ?s4)"
    by simp_all
  have quiet: "\<not> cancel_requested (ascii_lower ''yarin saat 10'')"
    "\<not> js_includes (ascii_lower ''yarin saat 10'') ''evet''"
    "\<not> cancel_requested (ascii_lower ''hayir'')"
    "\<not> js_includes (ascii_lower ''hayir'') ''evet''"
    by (simp_all add: cancel_requested_def ascii_lower_def)
  from confirmation_reprompt [where lc = ascii_lower and service = ?svc and service' = ?svc
      and s = ?s3 and w = ?w4 and msg = "''yarin saat 10''" and s' = ?s4
      and w' = ?w5 and msg' = "''hayir''"] m filled quiet
  have "generateResponse ascii_lower ?svc ?s3 ?w4 ''yarin saat 10'' = (?s4, Inr (confirmation ?s4))
      \<and> generateResponse ascii_lower ?svc ?s4 ?w5 ''hayir'' = (?s4, Inr (confirmation ?s4))"
    by blast
  moreover have "confirmation ?s4
     = [CHR 0xE2, CHR 0x9C, CHR 0x85] @ '' Onay: Acibadem hastanesi, Kardiyoloji b'' @
       [CHR 0xC3, CHR 0xB6] @ ''l'' @ [CHR 0xC3, CHR 0xBC] @ ''m'' @ [CHR 0xC3, CHR 0xBC] @
       '' i'' @ [CHR 0xC3, CHR 0xA7] @ ''in 2025-07-11T10:00 tarihine randevu talebiniz al'' @
       [CHR 0xC4, CHR 0xB1] @ ''nd'' @ [CHR 0xC4, CHR 0xB1] @ ''. Onayl'' @
       [CHR 0xC4, CHR 0xB1] @ ''yor musunuz? (evet/hay'' @ [CHR 0xC4, CHR 0xB1] @ ''r)''"
    by (simp add: confirmation_def)
  ultimately show ?thesis by blast
qed

subsection \<open>C7: the accepted confirmation resets the session\<close>



subsection \<open>C8: the replies of the generative fallback client\<close>

lemma askGemini_throws:
  "service (finalPrompt userText ctx) = FetchThrows \<Longrightarrow>
     askGemini service userText ctx = connection_message"
  by (simp add: askGemini_def)

lemma askGemini_json:
  "service (finalPrompt userText ctx) = FetchJson data \<Longrightarrow>
     askGemini service userText ctx =
       (case gemini_reply data of Inl e \<Rightarrow> connection_message | Inr r \<Rightarrow> r)"
  by (simp add: askGemini_def)

lemma first_candidate_text_cases:
  "gem_candidates data = None \<or> gem_candidates data = Some [] \<Longrightarrow>
     first_candidate_text data = not_understood_message"
  "gem_candidates data = Some (c # cs) \<Longrightarrow> cand_content c = Some ct \<Longrightarrow>
   content_parts ct = Some (p # ps) \<Longrightarrow> part_text p = Some t \<Longrightarrow> t \<noteq> [] \<Longrightarrow>
     first_candidate_text data = t"
  by (auto simp: first_candidate_text_def)

text \<open>
  C8 says that each failure category is answered with a fixed apology. A structured error
  that is neither the rate limit nor the invalid key is answered with a fixed prefix
  followed by the message of the service: two such errors get two different replies.
\<close>

theorem askGemini_other_error_not_fixed:
  "askGemini (\<lambda>p. FetchJson \<lparr>gem_error = Some \<lparr>err_code = 503, err_message = Some ''overloaded''\<rparr>,
                               gem_candidates = None\<rparr>) ''merhaba'' ''''
     = service_error_prefix @ ''overloaded'' \<and>
   askGemini (\<lambda>p. FetchJson \<lparr>gem_error = Some \<lparr>err_code = 500, err_message = Some ''internal''\<rparr>,
                               gem_candidates = None\<rparr>) ''merhaba'' ''''
     = service_error_prefix @ ''internal'' \<and>
   askGemini (\<lambda>p. FetchJson \<lparr>gem_error = Some \<lparr>err_code = 503, err_message = Some ''overloaded''\<rparr>,
                               gem_candidates = None\<rparr>) ''merhaba'' ''''
     \<noteq> askGemini (\<lambda>p. FetchJson \<lparr>gem_error = Some \<lparr>err_code = 500, err_message = Some ''internal''\<rparr>,
                               gem_candidates = None\<rparr>) ''merhaba'' ''''"
  by (simp add: askGemini_def gemini_reply_def api_key_invalid_def)

text \<open>
  C8 as amended. \<^verbatim>\<open>askGemini\<close> returns a string for every response: a request that
  throws, and any error thrown while the response is read, give the connection apology;
  error code 429 gives the quota apology; code 400 with \<^verbatim>\<open>API key not valid\<close> in the
  message gives the key apology; any other error with a non-empty message gives the
  fixed prefix followed by that message; a response without an error object gives the
  text of the first candidate when it is non-empty, and the fixed reply when there is no
  candidate. The four fixed replies are pairwise distinct, and a reply made of the
  prefix and a message is none of them.
\<close>

theorem askGemini_failure_mapping:
  "(service (finalPrompt userText ctx) = FetchThrows \<longrightarrow>
      askGemini service userText ctx = connection_message) \<and>
   (service (finalPrompt userText ctx) = FetchJson data \<and> gemini_reply data = Inl e \<longrightarrow>
      askGemini service userText ctx = connection_message) \<and>
   (service (finalPrompt userText ctx) = FetchJson data \<and> gem_error data = Some err
      \<and> err_code err = 429 \<longrightarrow>
      askGemini service userText ctx = quota_message) \<and>
   (service (finalPrompt userText ctx) = FetchJson data \<and> gem_error data = Some err
      \<and> err_code err = 400 \<and> err_message err = Some m
      \<and> js_includes m ''API key not valid'' \<longrightarrow>
      askGemini service userText ctx = api_key_message) \<and>
   (service (finalPrompt userText ctx) = FetchJson data \<and> gem_error data = Some err
      \<and> err_code err \<noteq> 429 \<and> err_message err = Some m \<and> m \<noteq> []
      \<and> \<not> (err_code err = 400 \<and> js_includes m ''API key not valid'') \<longrightarrow>
      askGemini service userText ctx = service_error_prefix @ m) \<and>
   (service (finalPrompt userText ctx) = FetchJson data \<and> gem_error data = None \<longrightarrow>
      askGemini service userText ctx = first_candidate_text data) \<and>
   (gem_candidates data = None \<or> gem_candidates data = Some [] \<longrightarrow>
      first_candidate_text data = not_understood_message) \<and>
   (gem_candidates data = Some (c # cs) \<and> cand_content c = Some ct
      \<and> content_parts ct = Some (p # ps) \<and> part_text p = Some t \<and> t \<noteq> [] \<longrightarrow>
      first_candidate_text data = t) \<and>
   distinct [quota_message, api_key_message, connection_message, not_understood_message] \<and>
   service_error_prefix @ m
     \<notin> set [quota_message, api_key_message, connection_message, not_understood_message]"
proof -
  have throws: "service (finalPrompt userText ctx) = FetchThrows \<longrightarrow>
      askGemini service userText ctx = connection_message"
    by (simp add: askGemini_throws)
  have caught: "service (finalPrompt userText ctx) = FetchJson data \<and> gemini_reply data = Inl e
      \<longrightarrow> askGemini service userText ctx = connection_message"
    by (simp add: askGemini_json)
  have quota: "service (finalPrompt userText ctx) = FetchJson data \<and> gem_error data = Some err
      \<and> err_code err = 429 \<longrightarrow> askGemini service userText ctx = quota_message"
    by (simp add: askGemini_json gemini_reply_def)
  have key: "service (finalPrompt userText ctx) = FetchJson data \<and> gem_error data = Some err
      \<and> err_code err = 400 \<and> err_message err = Some m
      \<and> js_includes m ''API key not valid'' \<longrightarrow>
      askGemini service userText ctx = api_key_message"
    by (simp add: askGemini_json gemini_reply_def api_key_invalid_def)
  have other: "service (finalPrompt userText ctx) = FetchJson data \<and> gem_error data = Some err
      \<and> err_code err \<noteq> 429 \<and> err_message err = Some m \<and> m \<noteq> []
      \<and> \<not> (err_code err = 400 \<and> js_includes m ''API key not valid'') \<longrightarrow>
      askGemini service userText ctx = service_error_prefix @ m"
    by (auto simp: askGemini_json gemini_reply_def api_key_invalid_def)
  have none: "service (finalPrompt userText ctx) = FetchJson data \<and> gem_error data = None \<longrightarrow>
      askGemini service userText ctx = first_candidate_text data"
    by (simp add: askGemini_json gemini_reply_def)
  have cand: "gem_candidates data = None \<or> gem_candidates data = Some [] \<longrightarrow>
      first_candidate_text data = not_understood_message"
    "gem_candidates data = Some (c # cs) \<and> cand_content c = Some ct
      \<and> content_parts ct = Some (p # ps) \<and> part_text p = Some t \<and> t \<noteq> [] \<longrightarrow>
      first_candidate_text data = t"
    using first_candidate_text_cases [of data] by blast+
  have diff: "distinct [quota_message, api_key_message, connection_message,
      not_understood_message]"
    "service_error_prefix @ m
     \<notin> set [quota_message, api_key_message, connection_message, not_understood_message]"
    using gem_distinct by simp_all
  from throws caught quota key other none cand diff show ?thesis by blast
qed

theorem askGemini_failure_mapping_witness:
  "askGemini (\<lambda>p. FetchThrows) ''merhaba'' ''baglam'' = connection_message \<and>
   askGemini (\<lambda>p. FetchJson \<lparr>gem_error = Some \<lparr>err_code = 429, err_message = Some ''quota''\<rparr>,
                               gem_candidates = None\<rparr>) ''merhaba'' ''baglam''
     = quota_message \<and>
   askGemini (\<lambda>p. FetchJson \<lparr>gem_error = Some \<lparr>err_code = 400,
                                 err_message = Some ''API key not valid. Pass a valid key.''\<rparr>,
                               gem_candidates = None\<rparr>) ''merhaba'' ''baglam''
     = api_key_message \<and>
   askGemini (\<lambda>p. FetchJson \<lparr>gem_error = Some \<lparr>err_code = 503, err_message = Some ''overloaded''\<rparr>,
                               gem_candidates = None\<rparr>) ''merhaba'' ''baglam''
     = service_error_prefix @ ''overloaded'' \<and>
   askGemini (\<lambda>p. FetchJson \<lparr>gem_error = None,
       gem_candidates = Some [\<lparr>cand_content = Some \<lparr>content_parts =
          Some [\<lparr>part_text = Some ''Merhaba!''\<rparr>]\<rparr>\<rparr>]\<rparr>) ''merhaba'' ''baglam''
     = ''Merhaba!'' \<and>
   askGemini (\<lambda>p. FetchJson \<lparr>gem_error = None, gem_candidates = Some []\<rparr>) ''merhaba'' ''baglam''
     = not_understood_message \<and>
   service_error_prefix @ ''overloaded'' \<noteq> connection_message"
proof -
  let ?e429 = "\<lparr>err_code = 429, err_message = Some ''quota''\<rparr>"
  let ?e400 = "\<lparr>err_code = 400, err_message = Some ''API key not valid. Pass a valid key.''\<rparr>"
  let ?e503 = "\<lparr>err_code = 503, err_message = Some ''overloaded''\<rparr>"
  let ?p = "\<lparr>part_text = Some ''Merhaba!''\<rparr>"
  let ?ct = "\<lparr>content_parts = Some [?p]\<rparr>"
  let ?c = "\<lparr>cand_content = Some ?ct\<rparr>"
  let ?ok = "\<lparr>gem_error = None, gem_candidates = Some [?c]\<rparr>"
  let ?empty = "\<lparr>gem_error = None, gem_candidates = Some []\<rparr>"
  have key: "js_includes ''API key not valid. Pass a valid key.'' ''API key not valid''"
    by simp
  from askGemini_failure_mapping [where service = "\<lambda>p. FetchThrows" and userText = "''merhaba''"
      and ctx = "''baglam''"]
  have 1: "askGemini (\<lambda>p. FetchThrows) ''merhaba'' ''baglam'' = connection_message"
    by simp
  from askGemini_failure_mapping [where userText = "''merhaba''" and ctx = "''baglam''"
      and service = "\<lambda>p. FetchJson \<lparr>gem_error = Some ?e429, gem_candidates = None\<rparr>"
      and data = "\<lparr>gem_error = Some ?e429, gem_candidates = None\<rparr>" and err = ?e429]
  have 2: "askGemini (\<lambda>p. FetchJson \<lparr>gem_error = Some ?e429, gem_candidates = None\<rparr>)
      ''merhaba'' ''baglam'' = quota_message"
    by simp
  from askGemini_failure_mapping [where userText = "''merhaba''" and ctx = "''baglam''"
      and service = "\<lambda>p. FetchJson \<lparr>gem_error = Some ?e400, gem_candidates = None\<rparr>"
      and data = "\<lparr>gem_error = Some ?e400, gem_candidates = None\<rparr>" and err = ?e400
      and m = "''API key not valid. Pass a valid key.''"] key
  have 3: "askGemini (\<lambda>p. FetchJson \<lparr>gem_error = Some ?e400, gem_candidates = None\<rparr>)
      ''merhaba'' ''baglam'' = api_key_message"
    by simp
  from askGemini_failure_mapping [where userText = "''merhaba''" and ctx = "''baglam''"
      and service = "\<lambda>p. FetchJson \<lparr>gem_error = Some ?e503, gem_candidates = None\<rparr>"
      and data = "\<lparr>gem_error = Some ?e503, gem_candidates = None\<rparr>" and err = ?e503
      and m = "''overloaded''"]
  have 4: "askGemini (\<lambda>p. FetchJson \<lparr>gem_error = Some ?e503, gem_candidates = None\<rparr>)
      ''merhaba'' ''baglam'' = service_error_prefix @ ''overloaded''"
    and 7: "service_error_prefix @ ''overloaded'' \<noteq> connection_message"
    by simp_all
  from askGemini_failure_mapping [where userText = "''merhaba''" and ctx = "''baglam''"
      and service = "\<lambda>p. FetchJson ?ok" and data = ?ok and c = ?c and cs = "[]" and ct = ?ct
      and p = ?p and ps = "[]" and t = "''Merhaba!''"]
  have 5: "askGemini (\<lambda>p. FetchJson ?ok) ''merhaba'' ''baglam'' = ''Merhaba!''"
    by simp
  from askGemini_failure_mapping [where userText = "''merhaba''" and ctx = "''baglam''"
      and service = "\<lambda>p. FetchJson ?empty" and data = ?empty]
  have 6: "askGemini (\<lambda>p. FetchJson ?empty) ''merhaba'' ''baglam'' = not_understood_message"
    by simp
  from 1 2 3 4 5 6 7 show ?thesis by simp
qed

subsection \<open>C9: no turn leaves the session half written\<close>

lemma generateResponse_error_unchanged:
  assumes "snd (generateResponse lc service s w msg) = Inl e"
  shows "fst (generateResponse lc service s w msg) = s"
proof (cases rule: generateResponse_cases [of s w lc service msg])
  case (throws s' e')
  with entity_merge_error_unchanged [OF throws(1)] show ?thesis by simp
qed (use assms in auto)

lemma generateResponse_session_service_free:
  "fst (generateResponse lc service s w msg) = fst (generateResponse lc service' s w msg)"
  by (simp add: generateResponse_def Let_def split: prod.splits option.splits)

lemma generateResponse_service_free:
  assumes "cancel_requested (lc msg)
    \<or> flow_entered (lc msg) (top_intent w) (top_confidence w) (fst (entity_merge s (wit_entities w)))"
  shows "generateResponse lc service s w msg = generateResponse lc service' s w msg"
  using assms by (auto simp: generateResponse_def Let_def split: prod.splits option.splits)

lemma fst_chat_turn:
  "fst (chat_turn lc wit service s userInput) =
     (if lc userInput = ''exit'' then s
      else case askWit wit userInput of
             Inl e \<Rightarrow> s
           | Inr witData \<Rightarrow> fst (generateResponse lc service s witData userInput))"
  by (simp add: chat_turn_def split: sum.splits prod.splits)

lemma chat_turn_session_service_free:
  "fst (chat_turn lc wit service s userInput) = fst (chat_turn lc wit service' s userInput)"
proof (cases "askWit wit userInput")
  case (Inl e)
  then show ?thesis by (simp add: fst_chat_turn)
next
  case (Inr witData)
  with generateResponse_session_service_free [of lc service s witData userInput service']
  show ?thesis by (simp add: fst_chat_turn)
qed

text \<open>
  C9. When the classifier call fails, the turn leaves the session as it was. When
  \<^verbatim>\<open>generateResponse\<close> throws, it leaves the session as it was. The session a turn
  leaves never depends on what the generative service does; on the cancellation path
  and in the appointment flow (the confirmation included) the reply does not depend on
  it either. On the only path that calls the generative service the merge has filled
  no slot: the session, as the specification sees it, is the one on entry.
\<close>

theorem no_partial_session_mutation:
  "(askWit wit userInput = Inl e \<longrightarrow>
      fst (chat_turn lc wit service s userInput) = s) \<and>
   (snd (generateResponse lc service s w msg) = Inl e' \<longrightarrow>
      fst (generateResponse lc service s w msg) = s) \<and>
   fst (generateResponse lc service s w msg) = fst (generateResponse lc service' s w msg) \<and>
   fst (chat_turn lc wit service s userInput) = fst (chat_turn lc wit service' s userInput) \<and>
   (cancel_requested (lc msg)
      \<or> flow_entered (lc msg) (top_intent w) (top_confidence w)
           (fst (entity_merge s (wit_entities w))) \<longrightarrow>
      generateResponse lc service s w msg = generateResponse lc service' s w msg) \<and>
   (\<not> cancel_requested (lc msg)
      \<and> \<not> flow_entered (lc msg) (top_intent w) (top_confidence w)
             (fst (entity_merge s (wit_entities w))) \<longrightarrow>
      session_view (fst (generateResponse lc service s w msg)) = session_view s)"
proof -
  have wit: "askWit wit userInput = Inl e \<longrightarrow> fst (chat_turn lc wit service s userInput) = s"
    by (simp add: chat_turn_def)
  have err: "snd (generateResponse lc service s w msg) = Inl e' \<longrightarrow>
      fst (generateResponse lc service s w msg) = s"
    using generateResponse_error_unchanged by blast
  have free: "cancel_requested (lc msg)
      \<or> flow_entered (lc msg) (top_intent w) (top_confidence w)
           (fst (entity_merge s (wit_entities w))) \<longrightarrow>
      generateResponse lc service s w msg = generateResponse lc service' s w msg"
    using generateResponse_service_free by blast
  have view: "\<not> cancel_requested (lc msg)
      \<and> \<not> flow_entered (lc msg) (top_intent w) (top_confidence w)
             (fst (entity_merge s (wit_entities w))) \<longrightarrow>
      session_view (fst (generateResponse lc service s w msg)) = session_view s"
  proof (cases rule: generateResponse_cases [of s w lc service msg])
    case (throws s' e)
    with entity_merge_error_unchanged [OF throws(1)] show ?thesis by simp
  next
    case (fallback s')
    with flow_entered_when_filled [of s "lc msg" "top_intent w" "top_confidence w" "wit_entities w"]
    have "\<not> truthy (hastane s)" "\<not> truthy (bolum s)" "\<not> truthy (datetime s)"
      by auto
    moreover from fallback have "\<not> truthy (hastane s')" "\<not> truthy (bolum s')"
      "\<not> truthy (datetime s')"
      by (simp_all add: flow_entered_def)
    ultimately have "session_view s' = session_view s"
      by (cases "hastane s"; cases "bolum s"; cases "datetime s"; cases "hastane s'";
          cases "bolum s'"; cases "datetime s'") (simp_all add: session_view_def slot_view_def)
    with fallback show ?thesis by simp
  qed simp_all
  from wit err free view generateResponse_session_service_free [of lc service s w msg service']
    chat_turn_session_service_free [of lc wit service s userInput service']
  show ?thesis by blast
qed

theorem no_partial_session_mutation_witness:
  "askWit (\<lambda>q. WitNotOk) ''merhaba'' = Inl Error \<and>
   fst (chat_turn ascii_lower (\<lambda>q. WitNotOk) (\<lambda>p. FetchThrows)
          \<lparr>hastane = Str ''Acibadem'', bolum = Null, datetime = Null\<rparr> ''merhaba'')
     = \<lparr>hastane = Str ''Acibadem'', bolum = Null, datetime = Null\<rparr> \<and>
   snd (generateResponse ascii_lower (\<lambda>p. FetchThrows)
          \<lparr>hastane = Str ''Acibadem'', bolum = Null, datetime = Null\<rparr>
          \<lparr>wit_intents = None, wit_entities = None\<rparr> ''merhaba'')
     = Inl TypeError \<and>
   fst (generateResponse ascii_lower (\<lambda>p. FetchThrows)
          \<lparr>hastane = Str ''Acibadem'', bolum = Null, datetime = Null\<rparr>
          \<lparr>wit_intents = None, wit_entities = None\<rparr> ''merhaba'')
     = \<lparr>hastane = Str ''Acibadem'', bolum = Null, datetime = Null\<rparr> \<and>
   generateResponse ascii_lower (\<lambda>p. FetchThrows)
       \<lparr>hastane = Str ''Acibadem'', bolum = Null, datetime = Null\<rparr>
       \<lparr>wit_intents = None, wit_entities = Some Map.empty\<rparr> ''iptal''
     = generateResponse ascii_lower
       (\<lambda>p. FetchJson \<lparr>gem_error = None, gem_candidates = None\<rparr>)
       \<lparr>hastane = Str ''Acibadem'', bolum = Null, datetime = Null\<rparr>
       \<lparr>wit_intents = None, wit_entities = Some Map.empty\<rparr> ''iptal'' \<and>
   session_view (fst (generateResponse ascii_lower (\<lambda>p. FetchThrows) initial_session
       \<lparr>wit_intents = None, wit_entities = Some Map.empty\<rparr> ''merhaba''))
     = session_view initial_session"
proof -
  let ?s = "\<lparr>hastane = Str ''Acibadem'', bolum = Null, datetime = Null\<rparr>"
  let ?w = "\<lparr>wit_intents = None, wit_entities = Some Map.empty\<rparr>"
  let ?wn = "\<lparr>wit_intents = None, wit_entities = None\<rparr>"
  let ?svc = "\<lambda>p :: string. FetchThrows"
  let ?svc' = "\<lambda>p :: string. FetchJson \<lparr>gem_error = None, gem_candidates = None\<rparr>"
  have fails: "askWit (\<lambda>q. WitNotOk) ''merhaba'' = Inl Error"
    by (simp add: askWit_def)
  have "entity_merge ?s None = (?s, Some TypeError)"
    by (rule entity_merge_without_entities) simp
  then have throws: "snd (generateResponse ascii_lower ?svc ?s ?wn ''merhaba'') = Inl TypeError"
    by (simp add: generateResponse_merge_error)
  have cancel: "cancel_requested (ascii_lower ''iptal'')"
    by (simp add: cancel_requested_def ascii_lower_def)
  have quiet: "\<not> cancel_requested (ascii_lower ''merhaba'')"
    "\<not> flow_entered (ascii_lower ''merhaba'') (top_intent ?w) (top_confidence ?w)
         (fst (entity_merge initial_session (wit_entities ?w)))"
    by (simp_all add: cancel_requested_def ascii_lower_def flow_entered_def top_intent_def
        entity_merge_def hastane_aliases_def bolum_aliases_def datetime_aliases_def
        entity_value_def entity_values_value_def initial_session_def)
  from no_partial_session_mutation [where wit = "\<lambda>q. WitNotOk" and userInput = "''merhaba''"
      and e = Error and lc = ascii_lower and service = ?svc and s = ?s] fails
  have 1: "fst (chat_turn ascii_lower (\<lambda>q. WitNotOk) ?svc ?s ''merhaba'') = ?s"
    by blast
  from no_partial_session_mutation [where lc = ascii_lower and service = ?svc and s = ?s
      and w = ?wn and msg = "''merhaba''" and e' = TypeError] throws
  have 2: "fst (generateResponse ascii_lower ?svc ?s ?wn ''merhaba'') = ?s"
    by blast
  from no_partial_session_mutation [where lc = ascii_lower and service = ?svc
      and service' = ?svc' and s = ?s and w = ?w and msg = "''iptal''"] cancel
  have 3: "generateResponse ascii_lower ?svc ?s ?w ''iptal''
      = generateResponse ascii_lower ?svc' ?s ?w ''iptal''"
    by blast
  from no_partial_session_mutation [where lc = ascii_lower and service = ?svc
      and s = initial_session and w = ?w and msg = "''merhaba''"] quiet
  have 4: "session_view (fst (generateResponse ascii_lower ?svc initial_session ?w ''merhaba''))
      = session_view initial_session"
    by blast
  from fails throws 1 2 3 4 show ?thesis by blast
qed

subsection \<open>C10: the generative fallback runs on an empty session\<close>

text \<open>
  C10: on a turn that reaches the generative fallback (the merge completes, there is no
  cancellation keyword and the flow is not entered) the three slots are absent on entry
  and absent after the merge, the reply is what \<^verbatim>\<open>askGemini\<close> returns, and the session
  of the specification is unchanged: three absent slots before and after. The merge
  assigns each slot the last operand of its chain, so the falsy value that stands for an
  absent slot can go from \<^verbatim>\<open>null\<close> to \<^verbatim>\<open>undefined\<close>; no slot is filled.
\<close>

theorem fallback_keeps_session_absent:
  assumes merge: "entity_merge s (wit_entities w) = (s', None)"
    and nocancel: "\<not> cancel_requested (lc msg)"
    and noflow: "\<not> flow_entered (lc msg) (top_intent w) (top_confidence w) s'"
  shows "absent (hastane s) \<and> absent (bolum s) \<and> absent (datetime s) \<and>
         absent (hastane s') \<and> absent (bolum s') \<and> absent (datetime s') \<and>
         generateResponse lc service s w msg =
           (s', Inr (askGemini service msg
                      (gemini_context msg (top_intent w) (top_confidence w)))) \<and>
         session_view (fst (generateResponse lc service s w msg)) = session_view s \<and>
         session_view s = (None, None, None)"
proof -
  from noflow have after: "\<not> truthy (hastane s')" "\<not> truthy (bolum s')" "\<not> truthy (datetime s')"
    by (simp_all add: flow_entered_def)
  from merge noflow
    flow_entered_when_filled [of s "lc msg" "top_intent w" "top_confidence w" "wit_entities w"]
  have before: "\<not> truthy (hastane s)" "\<not> truthy (bolum s)" "\<not> truthy (datetime s)"
    by auto
  have view: "slot_view v = None" if "\<not> truthy v" for v
    using that by (cases v) (simp_all add: slot_view_def)
  note gr = generateResponse_fallback [where lc = lc and msg = msg and service = service,
      OF merge nocancel noflow]
  from before after gr show ?thesis
    by (simp add: absent_def session_view_def view)
qed

theorem fallback_keeps_session_absent_witness:
  "generateResponse ascii_lower
       (\<lambda>p. FetchJson \<lparr>gem_error = None,
          gem_candidates = Some [\<lparr>cand_content = Some \<lparr>content_parts =
             Some [\<lparr>part_text = Some ''Merhaba!''\<rparr>]\<rparr>\<rparr>]\<rparr>)
       initial_session
       \<lparr>wit_intents = Some [\<lparr>intent_name = Some ''selamlama'', intent_confidence = Some (95 / 100)\<rparr>],
        wit_entities = Some Map.empty\<rparr>
       ''merhaba''
     = (\<lparr>hastane = Undefined, bolum = Undefined, datetime = Undefined\<rparr>, Inr ''Merhaba!'') \<and>
   session_view (fst (generateResponse ascii_lower
       (\<lambda>p. FetchJson \<lparr>gem_error = None,
          gem_candidates = Some [\<lparr>cand_content = Some \<lparr>content_parts =
             Some [\<lparr>part_text = Some ''Merhaba!''\<rparr>]\<rparr>\<rparr>]\<rparr>)
       initial_session
       \<lparr>wit_intents = Some [\<lparr>intent_name = Some ''selamlama'', intent_confidence = Some (95 / 100)\<rparr>],
        wit_entities = Some Map.empty\<rparr>
       ''merhaba''))
     = session_view initial_session \<and>
   session_view initial_session = (None, None, None)"
proof -
  let ?svc = "\<lambda>p :: string. FetchJson \<lparr>gem_error = None,
          gem_candidates = Some [\<lparr>cand_content = Some \<lparr>content_parts =
             Some [\<lparr>part_text = Some ''Merhaba!''\<rparr>]\<rparr>\<rparr>]\<rparr>"
  let ?w = "\<lparr>wit_intents = Some [\<lparr>intent_name = Some ''selamlama'', intent_confidence = Some (95 / 100)\<rparr>],
        wit_entities = Some Map.empty\<rparr>"
  let ?s' = "\<lparr>hastane = Undefined, bolum = Undefined, datetime = Undefined\<rparr>"
  have m: "entity_merge initial_session (wit_entities ?w) = (?s', None)"
    by (simp add: entity_merge_def hastane_aliases_def bolum_aliases_def datetime_aliases_def
        entity_value_def entity_values_value_def initial_session_def)
  have nc: "\<not> cancel_requested (ascii_lower ''merhaba'')"
    by (simp add: cancel_requested_def ascii_lower_def)
  have nf: "\<not> flow_entered (ascii_lower ''merhaba'') (top_intent ?w) (top_confidence ?w) ?s'"
    by (simp add: flow_entered_def ascii_lower_def top_intent_def)
  have reply: "askGemini ?svc ''merhaba''
      (gemini_context ''merhaba'' (top_intent ?w) (top_confidence ?w)) = ''Merhaba!''"
    by (simp add: askGemini_def gemini_reply_def first_candidate_text_def)
  from fallback_keeps_session_absent [where lc = ascii_lower and service = ?svc, OF m nc nf,
      unfolded reply]
  show ?thesis by blast
qed

end
